theory Spec2Isabelle
  imports Main "HOL-Library.Char_ord" "HOL-Library.List_Lexorder"
begin

section \<open>Python values, errors and effects\<close>

text \<open>
  The arguments of the chart's methods are dynamically typed. \<open>pyval\<close> holds the
  values the methods of \<open>chart.py\<close> receive and store: \<open>None\<close>, booleans, integers,
  strings, tuples and lists. A float is carried as a pair (mantissa, binary exponent);
  floats are only stored or handed to the float operations of the environment.
\<close>

datatype pyval =
    PyNone
  | PyBool bool
  | PyInt int
  | PyFloat int int
  | PyStr string
  | PyTuple "pyval list"
  | PyList "pyval list"

text \<open>Truth value of an object in a condition (\<open>if self._blank_labels:\<close>).\<close>

fun truthy :: "pyval \<Rightarrow> bool" where
  "truthy PyNone = False"
| "truthy (PyBool b) = b"
| "truthy (PyInt i) = (i \<noteq> 0)"
| "truthy (PyFloat m e) = (m \<noteq> 0)"
| "truthy (PyStr s) = (s \<noteq> [])"
| "truthy (PyTuple vs) = (vs \<noteq> [])"
| "truthy (PyList vs) = (vs \<noteq> [])"

text \<open>
  \<open>x in [..strings..]\<close>: list membership by \<open>==\<close>; only a string equals a string.
\<close>

definition py_in :: "pyval \<Rightarrow> string list \<Rightarrow> bool" where
  "py_in v xs = (v \<in> set (map PyStr xs))"

text \<open>
  An exception carries its message. A message built with \<open>str.format\<close> from a template
  and a list of names is kept as the template and the list, so that the names it lists
  can be read back.
\<close>

datatype message = Plain string | WithOptions string "string list"

datatype error =
    ValueError message
  | KeyError message
  | TypeError message
  | IndexError message
  | ZeroDivisionError message
  | ExternalError string

text \<open>The images of the image library, as the calls that built them.\<close>

datatype resample = LANCZOS

datatype image =
    Decoded "int \<times> int" "nat list"
  | Resized image "int \<times> int" resample
  | Pasted image image "int \<times> int" image

text \<open>
  \<open>image.size\<close>: a decoded image has the size its data give, \<open>resize\<close> returns an image
  of the requested size, \<open>paste\<close> keeps the size of the image pasted into.
\<close>

fun image_size :: "image \<Rightarrow> int \<times> int" where
  "image_size (Decoded s d) = s"
| "image_size (Resized img s r) = s"
| "image_size (Pasted img logo box msk) = image_size img"

text \<open>What a call leaves outside the chart, in the order it happened.\<close>

datatype effect =
    Warn string string
  | Print string
  | ShowFigure
  | SaveHtml string string
  | SaveImage string image
  | Display image

text \<open>What a method returns: the chart it was called on, or another value.\<close>

datatype ret = ThisChart | Value pyval

section \<open>The objects of the plotting library\<close>

text \<open>
  The figure and the objects attached to it (title, label, legend) are objects of the
  plotting library, shared by reference: the subtitle glyph is held both by the chart and
  by the figure's list of renderers. They live in a store, addressed by a reference.
\<close>

type_synonym ref = nat

datatype model_kind = Title | Label | Legend | Renderer

record model =
  kind :: model_kind
  text_attr :: pyval
  plot_attr :: bool
  location_attr :: pyval
  orientation_attr :: pyval
  visible_attr :: bool
  props :: "(string \<times> pyval) list"

record figure =
  x_range :: pyval
  y_range :: pyval
  x_axis_type :: pyval
  y_axis_type :: pyval
  fig_plot_width :: int
  fig_plot_height :: int
  tools :: string
  title_ref :: ref
  renderers :: "ref list"
  above :: "ref list"
  below :: "ref list"
  left :: "ref list"
  right :: "ref list"
  toolbar_location :: pyval
  toolbar_logo :: pyval
  theme :: "(string \<times> pyval) list"

text \<open>
  \<open>Style\<close> is defined in \<open>chartify/_core/style.py\<close>; the chart reads its plot size, its
  subtitle settings and the settings it applies to the figure.
\<close>

record style =
  layout :: pyval
  plot_width :: int
  plot_height :: int
  subtitle_align :: pyval
  subtitle_text_color :: pyval
  subtitle_text_size :: pyval
  subtitle_text_font :: pyval
  subtitle_location :: pyval
  chart_settings :: "(string \<times> pyval) list"

record chart =
  heap :: "ref \<Rightarrow> model"
  next_ref :: ref
  effects :: "effect list"
  chart_x_axis_type :: pyval
  chart_y_axis_type :: pyval
  blank_labels :: pyval
  style :: style
  figure :: figure
  plot :: string
  callout :: string
  axes :: string
  source :: ref
  subtitle_glyph :: ref

text \<open>
  The collaborators outside \<open>chart.py\<close>: the options registry, the style presets, the
  helper classes chosen by the pair of axis types, the float arithmetic of the
  interpreter, the renderer of a figure to HTML, the headless browser and the image
  decoder. The browser and the decoder can fail. The plotting library may warn on its
  own account when an attribute is assigned to an empty list of legends; what it emits
  for the attribute of a given name is \<open>empty_legend_warning\<close>.
\<close>

record env =
  get_value :: "pyval \<Rightarrow> pyval"
  make_style :: "pyval \<Rightarrow> style"
  get_plot_class :: "pyval \<Rightarrow> pyval \<Rightarrow> string"
  get_axis_class :: "pyval \<Rightarrow> pyval \<Rightarrow> string"
  float_mul :: "pyval \<Rightarrow> pyval \<Rightarrow> pyval"
  float_div :: "pyval \<Rightarrow> pyval \<Rightarrow> pyval"
  float_to_int :: "pyval \<Rightarrow> int"
  file_html :: "(ref \<Rightarrow> model) \<Rightarrow> figure \<Rightarrow> string"
  screenshot :: "int \<times> int \<Rightarrow> string \<Rightarrow> error + nat list"
  image_open :: "nat list \<Rightarrow> error + image"
  image_open_file :: "string \<Rightarrow> error + image"
  getbbox :: "image \<Rightarrow> (int \<times> int \<times> int \<times> int) option"
  empty_legend_warning :: "string \<Rightarrow> effect list"

text \<open>Sequencing of calls that may raise: the state reached at the raise is kept.\<close>

definition bind ::
  "(chart \<Rightarrow> (error + 'a) \<times> chart) \<Rightarrow> ('a \<Rightarrow> chart \<Rightarrow> (error + 'b) \<times> chart) \<Rightarrow>
   chart \<Rightarrow> (error + 'b) \<times> chart" where
  "bind m f c = (case m c of (Inl e, c') \<Rightarrow> (Inl e, c') | (Inr a, c') \<Rightarrow> f a c')"

subsection \<open>The figure's operations used by the chart\<close>

definition blank_model :: model where
  "blank_model = \<lparr>kind = Renderer, text_attr = PyNone, plot_attr = False,
     location_attr = PyNone, orientation_attr = PyNone, visible_attr = True, props = []\<rparr>"

text \<open>Creating an object of the library: a fresh reference in the store.\<close>

definition new_model :: "model \<Rightarrow> chart \<Rightarrow> ref \<times> chart" where
  "new_model m c =
     (next_ref c, c\<lparr>heap := (heap c)(next_ref c := m), next_ref := Suc (next_ref c)\<rparr>)"

text \<open>
  \<open>bokeh.plotting.figure(...)\<close>: a figure with its own title object (empty text), no
  renderers and empty layout slots.
\<close>

definition bokeh_figure ::
  "pyval \<Rightarrow> pyval \<Rightarrow> pyval \<Rightarrow> pyval \<Rightarrow> int \<Rightarrow> int \<Rightarrow> string \<Rightarrow> chart \<Rightarrow> figure \<times> chart" where
  "bokeh_figure xr yr yt xt w h tls c =
     (let (t, c1) = new_model (blank_model\<lparr>kind := Title, text_attr := PyStr [], plot_attr := True\<rparr>) c
      in (\<lparr>x_range = xr, y_range = yr, x_axis_type = xt, y_axis_type = yt,
            fig_plot_width = w, fig_plot_height = h, tools = tls, title_ref = t,
            renderers = [], above = [], below = [], left = [], right = [],
            toolbar_location = PyStr ''right'', toolbar_logo = PyStr ''normal'', theme = []\<rparr>, c1))"

definition valid_places :: "string list" where
  "valid_places = [''left'', ''right'', ''above'', ''below'', ''center'']"

text \<open>
  \<open>figure.add_layout(obj, place)\<close>: refuses an unknown place and an object whose \<open>plot\<close>
  is already set; otherwise sets \<open>obj.plot\<close>, appends the object to the renderers and,
  unless the place is the centre, to the slot of that name.
\<close>

definition add_layout :: "ref \<Rightarrow> pyval \<Rightarrow> chart \<Rightarrow> (error + unit) \<times> chart" where
  "add_layout obj place c =
     (if \<not> py_in place valid_places
      then (Inl (ValueError (WithOptions ''Invalid place specified. Valid place values are: '' valid_places)), c)
      else if plot_attr (heap c obj)
      then (Inl (ValueError (Plain ''object to be added already has 'plot' attribute set'')), c)
      else
        let c1 = c\<lparr>heap := (heap c)(obj := (heap c obj)\<lparr>plot_attr := True\<rparr>)\<rparr>;
            f = figure c1;
            f1 = f\<lparr>renderers := renderers f @ [obj]\<rparr>;
            f2 = (if place = PyStr ''left'' then f1\<lparr>left := left f1 @ [obj]\<rparr>
                  else if place = PyStr ''right'' then f1\<lparr>right := right f1 @ [obj]\<rparr>
                  else if place = PyStr ''above'' then f1\<lparr>above := above f1 @ [obj]\<rparr>
                  else if place = PyStr ''below'' then f1\<lparr>below := below f1 @ [obj]\<rparr>
                  else f1)
        in (Inr (), c1\<lparr>figure := f2\<rparr>))"

text \<open>\<open>figure.legend\<close>: the legends among the renderers, in order.\<close>

definition legend :: "chart \<Rightarrow> ref list" where
  "legend c = filter (\<lambda>r. kind (heap c r) = Legend) (renderers (figure c))"

text \<open>
  Assigning an attribute of \<open>figure.legend\<close> (as in \<open>figure.legend.location = ...\<close>)
  assigns it on every legend of the list. On an empty list nothing is assigned, and the
  library may warn on its own account.
\<close>

definition set_each :: "(model \<Rightarrow> model) \<Rightarrow> ref list \<Rightarrow> chart \<Rightarrow> chart" where
  "set_each upd rs c = c\<lparr>heap := fold (\<lambda>r h. h(r := upd (h r))) rs (heap c)\<rparr>"

definition assign_legend :: "env \<Rightarrow> string \<Rightarrow> (model \<Rightarrow> model) \<Rightarrow> chart \<Rightarrow> chart" where
  "assign_legend env attr upd c =
     (let c1 = (if legend c = []
                then c\<lparr>effects := effects c @ empty_legend_warning env attr\<rparr> else c)
      in set_each upd (legend c1) c1)"

section \<open>Chart: construction\<close>

definition valid_x_axis_types :: "string list" where
  "valid_x_axis_types = [''linear'', ''log'', ''datetime'', ''categorical'', ''density'']"

definition valid_y_axis_types :: "string list" where
  "valid_y_axis_types = [''linear'', ''log'', ''categorical'', ''density'']"

definition x_axis_type_error :: error where
  "x_axis_type_error =
     ValueError (WithOptions ''x_axis_type must be one of {options}'' valid_x_axis_types)"

definition y_axis_type_error :: error where
  "y_axis_type_error =
     ValueError (WithOptions ''y_axis_type must be one of {options}'' valid_y_axis_types)"

text \<open>The float literals \<open>.9\<close> and \<open>.1\<close> (nearest doubles) and \<open>1.0\<close>.\<close>

definition float_0_9 :: pyval where
  "float_0_9 = PyFloat 8106479329266893 (- 53)"

definition float_0_1 :: pyval where
  "float_0_1 = PyFloat 7205759403792794 (- 56)"

definition float_1_0 :: pyval where
  "float_1_0 = PyFloat 1 0"

definition initialize_figure :: "pyval \<Rightarrow> pyval \<Rightarrow> chart \<Rightarrow> figure \<times> chart" where
  "initialize_figure xt yt c =
     (let x_rng = PyNone; y_rng = PyNone;
          (x_rng, xt) = (if xt = PyStr ''categorical'' then (PyList [], PyStr ''auto'') else (x_rng, xt));
          (y_rng, yt) = (if yt = PyStr ''categorical'' then (PyList [], PyStr ''auto'') else (y_rng, yt));
          xt = (if xt = PyStr ''density'' then PyStr ''linear'' else xt);
          yt = (if yt = PyStr ''density'' then PyStr ''linear'' else yt)
      in bokeh_figure x_rng y_rng yt xt (plot_width (style c)) (plot_height (style c)) ''save'' c)"

text \<open>The \<open>Title\<close> and \<open>Label\<close> objects as their constructor calls build them.\<close>

definition subtitle_title :: "style \<Rightarrow> pyval \<Rightarrow> model" where
  "subtitle_title st subtitle_text =
     blank_model\<lparr>kind := Title, text_attr := subtitle_text,
       props := [(''align'', subtitle_align st),
                 (''text_color'', subtitle_text_color st),
                 (''text_font_size'', subtitle_text_size st),
                 (''text_font'', subtitle_text_font st)]\<rparr>"

definition source_label :: "env \<Rightarrow> style \<Rightarrow> pyval \<Rightarrow> model" where
  "source_label env st source_text =
     blank_model\<lparr>kind := Label, text_attr := source_text,
       props := [(''x'', float_mul env (PyInt (plot_width st)) float_0_9),
                 (''y'', PyInt (- 55)),
                 (''x_units'', PyStr ''screen''),
                 (''y_units'', PyStr ''screen''),
                 (''level'', PyStr ''overlay''),
                 (''text_color'', PyStr ''#898989''),
                 (''text_font_size'', PyStr ''10px''),
                 (''text_align'', PyStr ''right''),
                 (''name'', PyStr ''subtitle'')]\<rparr>"

definition default_subtitle :: pyval where
  "default_subtitle = PyStr ''ch.set_subtitle('Data Description')''"

definition default_source :: pyval where
  "default_source = PyStr ''ch.set_source_label('Source')''"

definition default_title :: pyval where
  "default_title = PyStr ''ch.set_title('Takeaway')''"

definition add_subtitle_to_figure :: "pyval \<Rightarrow> chart \<Rightarrow> (error + ref) \<times> chart" where
  "add_subtitle_to_figure subtitle_text c =
     (let subtitle_text = (if subtitle_text = PyNone then default_subtitle else subtitle_text);
          subtitle_text = (if truthy (blank_labels c) then PyStr [] else subtitle_text);
          (g, c1) = new_model (subtitle_title (style c) subtitle_text) c
      in bind (add_layout g (subtitle_location (style c))) (\<lambda>u c2. (Inr g, c2)) c1)"

definition add_source_to_figure :: "env \<Rightarrow> chart \<Rightarrow> (error + ref) \<times> chart" where
  "add_source_to_figure env c =
     (let source_text = default_source;
          source_text = (if truthy (blank_labels c) then PyStr [] else source_text);
          (s, c1) = new_model (source_label env (style c) source_text) c
      in bind (add_layout s (PyStr ''center'')) (\<lambda>u c2. (Inr s, c2)) c1)"

text \<open>\<open>style._apply_settings('chart')\<close>: the style's chart settings become the figure's.\<close>

definition apply_settings :: "chart \<Rightarrow> chart" where
  "apply_settings c = c\<lparr>figure := (figure c)\<lparr>theme := chart_settings (style c)\<rparr>\<rparr>"

text \<open>The chart before its attributes are assigned: an empty store and no figure yet.\<close>

definition no_figure :: figure where
  "no_figure = \<lparr>x_range = PyNone, y_range = PyNone, x_axis_type = PyNone, y_axis_type = PyNone,
     fig_plot_width = 0, fig_plot_height = 0, tools = [], title_ref = 0,
     renderers = [], above = [], below = [], left = [], right = [],
     toolbar_location = PyNone, toolbar_logo = PyNone, theme = []\<rparr>"

definition new_chart :: "pyval \<Rightarrow> pyval \<Rightarrow> pyval \<Rightarrow> style \<Rightarrow> chart" where
  "new_chart xt yt bl st = \<lparr>heap = (\<lambda>r. blank_model), next_ref = 0, effects = [],
     chart_x_axis_type = xt, chart_y_axis_type = yt, blank_labels = bl, style = st,
     figure = no_figure, plot = [], callout = [], axes = [], source = 0, subtitle_glyph = 0\<rparr>"

section \<open>Chart: labels\<close>

definition source_text :: "chart \<Rightarrow> pyval" where
  "source_text c = text_attr (heap c (source c))"

definition set_source_label :: "pyval \<Rightarrow> chart \<Rightarrow> (error + ret) \<times> chart" where
  "set_source_label src c =
     (Inr ThisChart, c\<lparr>heap := (heap c)(source c := (heap c (source c))\<lparr>text_attr := src\<rparr>)\<rparr>)"

definition title :: "chart \<Rightarrow> pyval" where
  "title c = text_attr (heap c (title_ref (figure c)))"

definition set_title :: "pyval \<Rightarrow> chart \<Rightarrow> (error + ret) \<times> chart" where
  "set_title t c =
     (Inr ThisChart,
      c\<lparr>heap := (heap c)(title_ref (figure c) := (heap c (title_ref (figure c)))\<lparr>text_attr := t\<rparr>)\<rparr>)"

definition subtitle :: "chart \<Rightarrow> pyval" where
  "subtitle c = text_attr (heap c (subtitle_glyph c))"

definition set_subtitle :: "pyval \<Rightarrow> chart \<Rightarrow> (error + ret) \<times> chart" where
  "set_subtitle s c =
     (Inr ThisChart,
      c\<lparr>heap := (heap c)(subtitle_glyph c := (heap c (subtitle_glyph c))\<lparr>text_attr := s\<rparr>)\<rparr>)"

text \<open>\<open>Chart.__init__\<close>; an exception leaves no chart.\<close>

definition Chart_init :: "env \<Rightarrow> pyval \<Rightarrow> pyval \<Rightarrow> pyval \<Rightarrow> pyval \<Rightarrow> error + chart" where
  "Chart_init env bl lay xt yt =
     (if \<not> py_in xt valid_x_axis_types then Inl x_axis_type_error
      else if \<not> py_in yt valid_y_axis_types then Inl y_axis_type_error
      else
        let c0 = new_chart xt yt (get_value env bl) (make_style env lay);
            (f, c1) = initialize_figure (chart_x_axis_type c0) (chart_y_axis_type c0) c0;
            c2 = apply_settings (c1\<lparr>figure := f\<rparr>);
            c3 = c2\<lparr>plot := get_plot_class env (chart_x_axis_type c2) (chart_y_axis_type c2)\<rparr>;
            c4 = c3\<lparr>callout := ''Callout''\<rparr>;
            c5 = c4\<lparr>axes := get_axis_class env (chart_x_axis_type c4) (chart_y_axis_type c4)\<rparr>
        in case add_source_to_figure env c5 of
             (Inl e, c6) \<Rightarrow> Inl e
           | (Inr s, c6) \<Rightarrow>
               (case add_subtitle_to_figure PyNone (c6\<lparr>source := s\<rparr>) of
                  (Inl e, c7) \<Rightarrow> Inl e
                | (Inr g, c7) \<Rightarrow>
                    let c8 = c7\<lparr>subtitle_glyph := g\<rparr>;
                        c9 = c8\<lparr>figure := (figure c8)\<lparr>toolbar_logo := PyNone\<rparr>\<rparr>;
                        ttl = default_title;
                        ttl = (if truthy (blank_labels c9) then PyStr [] else ttl)
                    in Inr (snd (set_title ttl c9))))"

section \<open>Chart: legend\<close>

text \<open>\<open>list.index\<close> (first position of an element) and \<open>list.pop(i)\<close>.\<close>

fun index_of :: "'a \<Rightarrow> 'a list \<Rightarrow> nat option" where
  "index_of x [] = None"
| "index_of x (y # ys) =
     (if x = y then Some 0 else (case index_of x ys of None \<Rightarrow> None | Some i \<Rightarrow> Some (Suc i)))"

definition pop :: "nat \<Rightarrow> 'a list \<Rightarrow> 'a list" where
  "pop i xs = take i xs @ drop (Suc i) xs"

definition legend_location :: "chart \<Rightarrow> error + pyval" where
  "legend_location c =
     (case legend c of
        [] \<Rightarrow> Inl (IndexError (Plain ''list index out of range''))
      | l # ls \<Rightarrow> Inr (location_attr (heap c l)))"

definition legend_warning :: string where
  "legend_warning =
     [CHR 0x0A] @ ''                    Legend location will not apply.'' @
     [CHR 0x0A] @ ''                    Set the legend after plotting data.'' @
     [CHR 0x0A] @ ''                    ''"

text \<open>
  The local function \<open>add_outside_legend\<close> of \<open>set_legend_location\<close>; it reads the
  chart and the requested orientation from the enclosing call.
\<close>

definition add_outside_legend ::
  "env \<Rightarrow> pyval \<Rightarrow> pyval \<Rightarrow> pyval \<Rightarrow> chart \<Rightarrow> (error + ret) \<times> chart" where
  "add_outside_legend env orientation legend_loc layout_location c =
     (let c1 = assign_legend env ''location'' (\<lambda>m. m\<lparr>location_attr := legend_loc\<rparr>) c
      in if legend c1 = []
         then (Inr ThisChart, c1\<lparr>effects := effects c1 @ [Warn legend_warning ''UserWarning'']\<rparr>)
         else
           let new_legend = hd (legend c1);
               c2 = c1\<lparr>heap := (heap c1)(new_legend := (heap c1 new_legend)\<lparr>plot_attr := False\<rparr>)\<rparr>;
               c3 = c2\<lparr>heap := (heap c2)(new_legend :=
                         (heap c2 new_legend)\<lparr>orientation_attr := orientation\<rparr>)\<rparr>
           in bind (add_layout new_legend layout_location) (\<lambda>u c4. (Inr (Value PyNone), c4)) c3)"

definition set_legend_location ::
  "env \<Rightarrow> pyval \<Rightarrow> pyval \<Rightarrow> chart \<Rightarrow> (error + ret) \<times> chart" where
  "set_legend_location env location orientation c =
     (if location = PyStr ''outside_top'' then
        bind (add_outside_legend env orientation (PyStr ''top_left'') (PyStr ''above''))
          (\<lambda>r c1.
             case index_of (subtitle_glyph c1) (renderers (figure c1)) of
               None \<Rightarrow> (Inl (ValueError (Plain ''list.index(x): x not in list'')), c1)
             | Some subtitle_index \<Rightarrow>
                 let c2 = c1\<lparr>figure := (figure c1)\<lparr>renderers :=
                            pop subtitle_index (renderers (figure c1))\<rparr>\<rparr>
                 in bind (add_subtitle_to_figure (text_attr (heap c2 (subtitle_glyph c2))))
                      (\<lambda>g c3. (Inr ThisChart, c3\<lparr>subtitle_glyph := g\<rparr>)) c2) c
      else if location = PyStr ''outside_bottom'' then
        bind (add_outside_legend env orientation (PyStr ''bottom_center'') (PyStr ''below''))
          (\<lambda>r c1. (Inr ThisChart, c1)) c
      else if location = PyStr ''outside_right'' then
        bind (add_outside_legend env orientation (PyStr ''top_left'') (PyStr ''right''))
          (\<lambda>r c1. (Inr ThisChart, c1)) c
      else if location = PyNone then
        (Inr ThisChart, assign_legend env ''visible'' (\<lambda>m. m\<lparr>visible_attr := False\<rparr>) c)
      else
        let c1 = assign_legend env ''location'' (\<lambda>m. m\<lparr>location_attr := location\<rparr>) c;
            c2 = assign_legend env ''orientation'' (\<lambda>m. m\<lparr>orientation_attr := orientation\<rparr>) c1
        in (Inr ThisChart, c2))"

section \<open>Chart: export\<close>

definition invalid_format_error :: error where
  "invalid_format_error = ValueError (Plain ''Invalid format. Valid options are 'html' or 'png'.'')"

definition set_toolbar_for_format :: "pyval \<Rightarrow> chart \<Rightarrow> (error + unit) \<times> chart" where
  "set_toolbar_for_format format c =
     (if format = PyStr ''html''
      then (Inr (), c\<lparr>figure := (figure c)\<lparr>toolbar_location := PyStr ''right''\<rparr>\<rparr>)
      else if format = PyStr ''png''
      then (Inr (), c\<lparr>figure := (figure c)\<lparr>toolbar_location := PyNone\<rparr>\<rparr>)
      else if format = PyNone
      then (Inr (), c)
      else (Inl invalid_format_error, c))"

text \<open>
  \<open>_figure_to_png\<close>: the figure is rendered to HTML, a headless browser with a window
  of the chart's size takes a screenshot of it, the screenshot is decoded, and the image
  is resized when its size is not the chart's. A failure of the browser or of the
  decoder is not caught.
\<close>

definition figure_to_png :: "env \<Rightarrow> chart \<Rightarrow> error + image" where
  "figure_to_png env c =
     (let html = file_html env (heap c) (figure c)
      in case screenshot env (plot_width (style c), plot_height (style c)) html of
           Inl e \<Rightarrow> Inl e
         | Inr png \<Rightarrow>
             (case image_open env png of
                Inl e \<Rightarrow> Inl e
              | Inr img \<Rightarrow>
                  let target_dimensions = (plot_width (style c), plot_height (style c));
                      img = (if image_size img \<noteq> target_dimensions
                               then Resized img target_dimensions LANCZOS else img)
                  in Inr img))"

definition show_chart :: "env \<Rightarrow> pyval \<Rightarrow> chart \<Rightarrow> (error + ret) \<times> chart" where
  "show_chart env format c =
     bind (set_toolbar_for_format format)
       (\<lambda>u c1.
          if format = PyStr ''html''
          then (Inr (Value PyNone), c1\<lparr>effects := effects c1 @ [ShowFigure]\<rparr>)
          else if format = PyStr ''png''
          then (case figure_to_png env c1 of
                  Inl e \<Rightarrow> (Inl e, c1)
                | Inr img \<Rightarrow> (Inr (Value PyNone), c1\<lparr>effects := effects c1 @ [Display img]\<rparr>))
          else (Inr (Value PyNone), c1)) c"

definition save :: "env \<Rightarrow> string \<Rightarrow> pyval \<Rightarrow> chart \<Rightarrow> (error + ret) \<times> chart" where
  "save env filename format c =
     bind (set_toolbar_for_format format)
       (\<lambda>u c1.
          bind (\<lambda>c1.
                  if format = PyStr ''html''
                  then (Inr (), c1\<lparr>effects := effects c1 @ [SaveHtml filename ''Chartify chart.'']\<rparr>)
                  else if format = PyStr ''png''
                  then (case figure_to_png env c1 of
                          Inl e \<Rightarrow> (Inl e, c1)
                        | Inr img \<Rightarrow>
                            (Inr (), c1\<lparr>effects := effects c1 @ [SaveImage filename img]\<rparr>))
                  else (Inr (), c1))
            (\<lambda>u c2. (Inr ThisChart, c2\<lparr>effects := effects c2 @ [Print (''Saved to '' @ filename)]\<rparr>))
            c1) c"

section \<open>Logo\<close>

record logo =
  logo_image :: "image option"
  path :: string
  logo_file_mapping :: "(string \<times> string) list"

text \<open>
  \<open>Logo.__init__\<close>: no image, the configured path, and the (empty) name-to-file
  mapping sorted by name.
\<close>

definition Logo_init :: "string \<Rightarrow> logo" where
  "Logo_init logos_path =
     \<lparr>logo_image = None, path = logos_path, logo_file_mapping = sort_key fst []\<rparr>"

definition add_logo_to_image :: "env \<Rightarrow> logo \<Rightarrow> image \<Rightarrow> error + image" where
  "add_logo_to_image env lg img =
     (case logo_image lg of
        None \<Rightarrow> Inr img
      | Some logo_img \<Rightarrow>
          (case getbbox env img of
             None \<Rightarrow> Inl (TypeError (Plain '''NoneType' object is not subscriptable''))
           | Some (x0, y0, x_dim, y1) \<Rightarrow>
               (case getbbox env logo_img of
                  None \<Rightarrow> Inl (TypeError (Plain '''NoneType' object is not subscriptable''))
                | Some (lx0, ly0, width, ly1) \<Rightarrow>
                    let padding = 10;
                        coords = (x_dim - width - padding, 0 + padding)
                    in Inr (Pasted img logo_img coords logo_img))))"

definition resize_logo :: "env \<Rightarrow> chart \<Rightarrow> image \<Rightarrow> error + image" where
  "resize_logo env c logo_img =
     (let (logo_width, logo_height) = image_size logo_img;
          target_height = float_to_int env (float_mul env (PyInt (plot_height (style c))) float_0_1)
      in if logo_width = logo_height
         then Inr (Resized logo_img (target_height, target_height) LANCZOS)
         else if logo_height = 0
         then Inl (ZeroDivisionError (Plain ''float division by zero''))
         else
           let logo_width_to_height =
                 float_div env (float_mul env (PyInt logo_width) float_1_0) (PyInt logo_height)
           in Inr (Resized logo_img
                (float_to_int env (float_mul env logo_width_to_height (PyInt target_height)),
                 target_height) LANCZOS))"

text \<open>A dictionary key must be hashable: a list is not, nor a tuple that holds one.\<close>

fun hashable :: "pyval \<Rightarrow> bool" where
  "hashable (PyList vs) = False"
| "hashable (PyTuple vs) = list_all hashable vs"
| "hashable v = True"

definition logo_name_error :: "logo \<Rightarrow> error" where
  "logo_name_error lg =
     KeyError (WithOptions ''Must supply a valid logo name: {valid_options}''
       (map fst (logo_file_mapping lg)))"

definition set_logo :: "env \<Rightarrow> chart \<Rightarrow> pyval \<Rightarrow> logo \<Rightarrow> (error + unit) \<times> logo" where
  "set_logo env c logo_name lg =
     (if \<not> hashable logo_name then (Inl (TypeError (Plain ''unhashable type'')), lg)
      else
        case (case logo_name of PyStr n \<Rightarrow> map_of (logo_file_mapping lg) n | v \<Rightarrow> None) of
          None \<Rightarrow> (Inl (logo_name_error lg), lg)
        | Some filename \<Rightarrow>
            (case image_open_file env (path lg @ filename) of
               Inl e \<Rightarrow> (Inl e, lg)
             | Inr logo_img \<Rightarrow>
                 (case resize_logo env c logo_img of
                    Inl e \<Rightarrow> (Inl e, lg)
                  | Inr logo_img \<Rightarrow> (Inr (), lg\<lparr>logo_image := Some logo_img\<rparr>))))"

section \<open>Well-formed charts and an example environment\<close>

text \<open>
  A chart is well formed when every renderer of its figure is an allocated object, its
  subtitle glyph is a title among the renderers, and its style places the subtitle in
  one of the figure's places.
\<close>

definition chart_ok :: "chart \<Rightarrow> bool" where
  "chart_ok c \<longleftrightarrow>
     list_all (\<lambda>r. r < next_ref c) (renderers (figure c)) \<and>
     subtitle_glyph c \<in> set (renderers (figure c)) \<and>
     kind (heap c (subtitle_glyph c)) = Title \<and>
     py_in (subtitle_location (style c)) valid_places"

text \<open>
  What plotting data with a legend leaves in the figure: the plotting library creates a
  legend and adds it to the centre of the figure.
\<close>

definition plot_with_legend :: "chart \<Rightarrow> chart" where
  "plot_with_legend c =
     (let (l, c1) = new_model (blank_model\<lparr>kind := Legend, location_attr := PyStr ''top_right'',
                       orientation_attr := PyStr ''vertical''\<rparr>) c
      in snd (add_layout l (PyStr ''center'') c1))"

text \<open>
  An environment for the examples: options are plain values, every layout gives a
  960 by 540 style, floats are exact dyadic numbers (products exact, quotients cut after
  64 binary places), the browser's screenshot has twice the window's size, the decoder
  reads the size from the first two bytes, the bounding box of an image is the whole
  image, and the plotting library stays silent about an empty list of legends.
\<close>

definition example_style :: style where
  "example_style = \<lparr>layout = PyStr ''slide_100%'', plot_width = 960, plot_height = 540,
     subtitle_align = PyStr ''left'', subtitle_text_color = PyStr ''#666666'',
     subtitle_text_size = PyStr ''12pt'', subtitle_text_font = PyStr ''helvetica'',
     subtitle_location = PyStr ''above'', chart_settings = []\<rparr>"

fun dyadic :: "pyval \<Rightarrow> int \<times> int" where
  "dyadic (PyInt i) = (i, 0)"
| "dyadic (PyFloat m e) = (m, e)"
| "dyadic v = (0, 0)"

definition example_env :: env where
  "example_env = \<lparr>
     get_value = (\<lambda>v. v),
     make_style = (\<lambda>l. example_style),
     get_plot_class = (\<lambda>x y. ''PlotNumericXY''),
     get_axis_class = (\<lambda>x y. ''NumericalXYAxes''),
     float_mul = (\<lambda>a b. PyFloat (fst (dyadic a) * fst (dyadic b)) (snd (dyadic a) + snd (dyadic b))),
     float_div = (\<lambda>a b. if fst (dyadic b) = 0 then PyFloat 0 0
                   else PyFloat (fst (dyadic a) * 2 ^ 64 div fst (dyadic b))
                          (snd (dyadic a) - snd (dyadic b) - 64)),
     float_to_int = (\<lambda>a. if 0 \<le> snd (dyadic a) then fst (dyadic a) * 2 ^ nat (snd (dyadic a))
                     else sgn (fst (dyadic a)) * (\<bar>fst (dyadic a)\<bar> div 2 ^ nat (- snd (dyadic a)))),
     file_html = (\<lambda>h f. ''<html></html>''),
     screenshot = (\<lambda>(w, h) html. Inr [nat (2 * w), nat (2 * h)]),
     image_open = (\<lambda>png. case png of
                     w # h # rest \<Rightarrow> Inr (Decoded (int w, int h) png)
                   | short \<Rightarrow> Inl (ExternalError ''cannot identify image file'')),
     image_open_file = (\<lambda>name. Inl (ExternalError ''No such file or directory'')),
     getbbox = (\<lambda>img. Some (0, 0, fst (image_size img), snd (image_size img))),
     empty_legend_warning = (\<lambda>attr. [])\<rparr>"

text \<open>The chart of a construction that did not raise.\<close>

definition constructed :: "error + chart \<Rightarrow> chart" where
  "constructed r = (case r of Inr c \<Rightarrow> c | Inl e \<Rightarrow> new_chart PyNone PyNone PyNone example_style)"

definition example_chart :: chart where
  "example_chart =
     constructed (Chart_init example_env (PyBool False) (PyStr ''slide_100%'')
       (PyStr ''linear'') (PyStr ''linear''))"

definition blank_chart :: chart where
  "blank_chart =
     constructed (Chart_init example_env (PyBool True) (PyStr ''slide_100%'')
       (PyStr ''datetime'') (PyStr ''categorical''))"

text \<open>A chart image of the example size and a logo holding a resized square image.\<close>

definition example_image :: image where
  "example_image = Decoded (960, 540) [960, 540]"

definition example_logo :: logo where
  "example_logo =
     \<lparr>logo_image = Some (Resized (Decoded (200, 200) [200, 200]) (54, 54) LANCZOS),
      path = ''logos/'', logo_file_mapping = [(''spotify'', ''spotify.png'')]\<rparr>"

text \<open>
  The box that the words ``the bottom-right corner, with a fixed padding'' give the logo:
  its left and upper edges lie the logo's size and the padding away from the right and
  lower edges of the image.
\<close>

definition bottom_right_corner :: "image \<Rightarrow> image \<Rightarrow> int \<Rightarrow> int \<times> int" where
  "bottom_right_corner img logo_img padding =
     (fst (image_size img) - fst (image_size logo_img) - padding,
      snd (image_size img) - snd (image_size logo_img) - padding)"

section \<open>Intermediate states of the construction and of moving the legend\<close>

text \<open>The state after adding the source label or a subtitle, whether or not it raised.\<close>

definition source_text_of :: "chart \<Rightarrow> pyval" where
  "source_text_of c = (if truthy (blank_labels c) then PyStr [] else default_source)"

definition subtitle_text_of :: "pyval \<Rightarrow> chart \<Rightarrow> pyval" where
  "subtitle_text_of t c =
     (if truthy (blank_labels c) then PyStr []
      else if t = PyNone then default_subtitle else t)"

text \<open>The chart as \<open>__init__\<close> has it just before the source label is added.\<close>

definition init_base :: "env \<Rightarrow> pyval \<Rightarrow> pyval \<Rightarrow> pyval \<Rightarrow> pyval \<Rightarrow> chart" where
  "init_base env bl lay xt yt =
     (let c0 = new_chart xt yt (get_value env bl) (make_style env lay);
          (f, c1) = initialize_figure (chart_x_axis_type c0) (chart_y_axis_type c0) c0;
          c2 = apply_settings (c1\<lparr>figure := f\<rparr>);
          c3 = c2\<lparr>plot := get_plot_class env (chart_x_axis_type c2) (chart_y_axis_type c2)\<rparr>;
          c4 = c3\<lparr>callout := ''Callout''\<rparr>
      in c4\<lparr>axes := get_axis_class env (chart_x_axis_type c4) (chart_y_axis_type c4)\<rparr>)"

definition after_source :: "env \<Rightarrow> chart \<Rightarrow> chart" where
  "after_source env c =
     (snd (add_layout (next_ref c) (PyStr ''center'')
        (snd (new_model (source_label env (style c) (source_text_of c)) c))))\<lparr>source := next_ref c\<rparr>"

text \<open>
  The chart as \<open>add_outside_legend\<close> has it just before the first legend is added to
  its new place: the location assigned to the legends, the \<open>plot\<close> of the first legend
  cleared and its orientation set.
\<close>

definition detached_legend :: "env \<Rightarrow> pyval \<Rightarrow> pyval \<Rightarrow> chart \<Rightarrow> chart" where
  "detached_legend env orientation legend_loc c =
     (let c1 = assign_legend env ''location'' (\<lambda>m. m\<lparr>location_attr := legend_loc\<rparr>) c;
          new_legend = hd (legend c1)
      in c1\<lparr>heap := (heap c1)(new_legend :=
              (heap c1 new_legend)\<lparr>plot_attr := False, orientation_attr := orientation\<rparr>)\<rparr>)"

text \<open>
  What \<open>set_legend_location('outside_top')\<close> does after \<open>add_outside_legend\<close>: the
  subtitle is taken out of the renderers and added again, over the legend.
\<close>

definition rerender_subtitle :: "chart \<Rightarrow> (error + ret) \<times> chart" where
  "rerender_subtitle c1 =
     (case index_of (subtitle_glyph c1) (renderers (figure c1)) of
        None \<Rightarrow> (Inl (ValueError (Plain ''list.index(x): x not in list'')), c1)
      | Some subtitle_index \<Rightarrow>
          let c2 = c1\<lparr>figure := (figure c1)\<lparr>renderers :=
                     pop subtitle_index (renderers (figure c1))\<rparr>\<rparr>
          in bind (add_subtitle_to_figure (text_attr (heap c2 (subtitle_glyph c2))))
               (\<lambda>g c3. (Inr ThisChart, c3\<lparr>subtitle_glyph := g\<rparr>)) c2)"

section \<open>Basic facts\<close>

lemma bind_Inr_const:
  "bind m (\<lambda>u c2. (Inr g, c2)) c = (Inr a, c') \<Longrightarrow> a = g \<and> c' = snd (m c)"
  by (auto simp: bind_def split: prod.splits sum.splits)

lemma bind_Inl_const:
  "bind m (\<lambda>u c2. (Inr g, c2)) c = (Inl e, c') \<Longrightarrow> m c = (Inl e, c')"
  by (auto simp: bind_def split: prod.splits sum.splits)

lemma bind_ok: "m c = (Inr a, c1) \<Longrightarrow> bind m f c = f a c1"
  by (simp add: bind_def)

lemma bind_raise: "m c = (Inl e, c1) \<Longrightarrow> bind m f c = (Inl e, c1)"
  by (simp add: bind_def)

lemma py_in_iff: "py_in v xs \<longleftrightarrow> (\<exists>n \<in> set xs. v = PyStr n)"
  by (auto simp: py_in_def)

lemma add_layout_errors:
  "add_layout obj place c = (Inl e, c') \<Longrightarrow> e \<noteq> x_axis_type_error \<and> e \<noteq> y_axis_type_error"
  by (auto simp: add_layout_def x_axis_type_error_def y_axis_type_error_def Let_def split: if_splits)

lemma add_layout_snd:
  "text_attr (heap (snd (add_layout obj place c)) x) = text_attr (heap c x)"
  "kind (heap (snd (add_layout obj place c)) x) = kind (heap c x)"
  "visible_attr (heap (snd (add_layout obj place c)) x) = visible_attr (heap c x)"
  "next_ref (snd (add_layout obj place c)) = next_ref c"
  "blank_labels (snd (add_layout obj place c)) = blank_labels c"
  "style (snd (add_layout obj place c)) = style c"
  "source (snd (add_layout obj place c)) = source c"
  "subtitle_glyph (snd (add_layout obj place c)) = subtitle_glyph c"
  "effects (snd (add_layout obj place c)) = effects c"
  "title_ref (figure (snd (add_layout obj place c))) = title_ref (figure c)"
  by (simp_all add: add_layout_def Let_def)

lemma add_layout_ok:
  assumes "py_in place valid_places" and "\<not> plot_attr (heap c obj)"
  shows "fst (add_layout obj place c) = Inr ()"
    and "renderers (figure (snd (add_layout obj place c))) = renderers (figure c) @ [obj]"
  using assms by (simp_all add: add_layout_def Let_def)

lemma add_layout_slot:
  assumes "\<not> plot_attr (heap c obj)"
  shows "above (figure (snd (add_layout obj (PyStr ''above'') c))) = above (figure c) @ [obj]"
    and "below (figure (snd (add_layout obj (PyStr ''below'') c))) = below (figure c) @ [obj]"
    and "right (figure (snd (add_layout obj (PyStr ''right'') c))) = right (figure c) @ [obj]"
  using assms by (simp_all add: add_layout_def Let_def py_in_def valid_places_def)

lemma new_model_simps:
  "fst (new_model m c) = next_ref c"
  "heap (snd (new_model m c)) = (heap c)(next_ref c := m)"
  "next_ref (snd (new_model m c)) = Suc (next_ref c)"
  "figure (snd (new_model m c)) = figure c"
  "style (snd (new_model m c)) = style c"
  "blank_labels (snd (new_model m c)) = blank_labels c"
  "effects (snd (new_model m c)) = effects c"
  "source (snd (new_model m c)) = source c"
  "subtitle_glyph (snd (new_model m c)) = subtitle_glyph c"
  by (simp_all add: new_model_def)

lemma add_source_unfold:
  "add_source_to_figure env c =
     bind (add_layout (next_ref c) (PyStr ''center''))
       (\<lambda>u c2. (Inr (next_ref c), c2))
       (snd (new_model (source_label env (style c) (source_text_of c)) c))"
  by (simp add: add_source_to_figure_def Let_def new_model_def source_text_of_def)

lemma add_subtitle_unfold:
  "add_subtitle_to_figure t c =
     bind (add_layout (next_ref c) (subtitle_location (style c)))
       (\<lambda>u c2. (Inr (next_ref c), c2))
       (snd (new_model (subtitle_title (style c) (subtitle_text_of t c)) c))"
  by (simp add: add_subtitle_to_figure_def Let_def new_model_def subtitle_text_of_def)

lemma add_source_errors:
  "add_source_to_figure env c = (Inl e, c') \<Longrightarrow> e \<noteq> x_axis_type_error \<and> e \<noteq> y_axis_type_error"
  unfolding add_source_unfold by (blast dest: bind_Inl_const add_layout_errors)

lemma add_subtitle_errors:
  "add_subtitle_to_figure t c = (Inl e, c') \<Longrightarrow> e \<noteq> x_axis_type_error \<and> e \<noteq> y_axis_type_error"
  unfolding add_subtitle_unfold by (blast dest: bind_Inl_const add_layout_errors)

lemma add_source_Inr:
  assumes "add_source_to_figure env c = (Inr s, c')"
  shows "s = next_ref c"
    and "c' = snd (add_layout (next_ref c) (PyStr ''center'')
                (snd (new_model (source_label env (style c) (source_text_of c)) c)))"
  using assms unfolding add_source_unfold by (auto dest: bind_Inr_const)

lemma add_subtitle_Inr:
  assumes "add_subtitle_to_figure t c = (Inr g, c')"
  shows "g = next_ref c"
    and "c' = snd (add_layout (next_ref c) (subtitle_location (style c))
                (snd (new_model (subtitle_title (style c) (subtitle_text_of t c)) c)))"
  using assms unfolding add_subtitle_unfold by (auto dest: bind_Inr_const)

lemma add_subtitle_ok:
  assumes "py_in (subtitle_location (style c)) valid_places"
  shows "add_subtitle_to_figure t c =
     (Inr (next_ref c), snd (add_layout (next_ref c) (subtitle_location (style c))
                (snd (new_model (subtitle_title (style c) (subtitle_text_of t c)) c))))"
proof -
  let ?c1 = "snd (new_model (subtitle_title (style c) (subtitle_text_of t c)) c)"
  have "\<not> plot_attr (heap ?c1 (next_ref c))"
    by (simp add: new_model_simps subtitle_title_def blank_model_def)
  moreover have "py_in (subtitle_location (style ?c1)) valid_places"
    using assms by (simp add: new_model_simps)
  ultimately have "fst (add_layout (next_ref c) (subtitle_location (style c)) ?c1) = Inr ()"
    using add_layout_ok(1)[of "subtitle_location (style c)" ?c1 "next_ref c"]
    by (simp add: new_model_simps)
  then have "add_layout (next_ref c) (subtitle_location (style c)) ?c1
      = (Inr (), snd (add_layout (next_ref c) (subtitle_location (style c)) ?c1))"
    by (metis prod.collapse)
  then show ?thesis unfolding add_subtitle_unfold by (rule bind_ok[THEN trans]) simp
qed

lemma init_base_simps:
  "next_ref (init_base env bl lay xt yt) = 1"
  "title_ref (figure (init_base env bl lay xt yt)) = 0"
  "renderers (figure (init_base env bl lay xt yt)) = []"
  "blank_labels (init_base env bl lay xt yt) = get_value env bl"
  "style (init_base env bl lay xt yt) = make_style env lay"
  "effects (init_base env bl lay xt yt) = []"
  "kind (heap (init_base env bl lay xt yt) 0) = Title"
  by (simp_all add: init_base_def Let_def initialize_figure_def bokeh_figure_def new_model_def
      apply_settings_def new_chart_def split: prod.splits)

lemma Chart_init_unfold:
  assumes "py_in xt valid_x_axis_types" and "py_in yt valid_y_axis_types"
  shows "Chart_init env bl lay xt yt =
     (case add_source_to_figure env (init_base env bl lay xt yt) of
        (Inl e, c6) \<Rightarrow> Inl e
      | (Inr s, c6) \<Rightarrow>
          (case add_subtitle_to_figure PyNone (c6\<lparr>source := s\<rparr>) of
             (Inl e, c7) \<Rightarrow> Inl e
           | (Inr g, c7) \<Rightarrow>
               Inr (snd (set_title (if truthy (blank_labels c7) then PyStr [] else default_title)
                      (c7\<lparr>subtitle_glyph := g,
                           figure := (figure c7)\<lparr>toolbar_logo := PyNone\<rparr>\<rparr>)))))"
  using assms
  by (simp add: Chart_init_def init_base_def Let_def split: prod.splits sum.splits)

lemma add_layout_Inr:
  assumes "add_layout obj place c = (Inr u, c')"
  shows "py_in place valid_places"
    and "renderers (figure c') = renderers (figure c) @ [obj]"
  using assms by (auto simp: add_layout_def Let_def split: if_splits)

lemma add_source_ok:
  "add_source_to_figure env c =
     (Inr (next_ref c), snd (add_layout (next_ref c) (PyStr ''center'')
                (snd (new_model (source_label env (style c) (source_text_of c)) c))))"
proof -
  let ?c1 = "snd (new_model (source_label env (style c) (source_text_of c)) c)"
  have "\<not> plot_attr (heap ?c1 (next_ref c))"
    by (simp add: new_model_simps source_label_def blank_model_def)
  moreover have "py_in (PyStr ''center'') valid_places"
    by (simp add: py_in_def valid_places_def)
  ultimately have "fst (add_layout (next_ref c) (PyStr ''center'') ?c1) = Inr ()"
    by (rule add_layout_ok(1)[rotated])
  then have "add_layout (next_ref c) (PyStr ''center'') ?c1
      = (Inr (), snd (add_layout (next_ref c) (PyStr ''center'') ?c1))"
    by (metis prod.collapse)
  then show ?thesis unfolding add_source_unfold by (rule bind_ok[THEN trans]) simp
qed

lemma after_source_simps:
  "next_ref (after_source env c) = Suc (next_ref c)"
  "source (after_source env c) = next_ref c"
  "style (after_source env c) = style c"
  "blank_labels (after_source env c) = blank_labels c"
  "effects (after_source env c) = effects c"
  "title_ref (figure (after_source env c)) = title_ref (figure c)"
  "renderers (figure (after_source env c)) = renderers (figure c) @ [next_ref c]"
  "text_attr (heap (after_source env c) x) =
     (if x = next_ref c then source_text_of c else text_attr (heap c x))"
  "kind (heap (after_source env c) x) = (if x = next_ref c then Label else kind (heap c x))"
proof -
  let ?c1 = "snd (new_model (source_label env (style c) (source_text_of c)) c)"
  have p: "\<not> plot_attr (heap ?c1 (next_ref c))"
    by (simp add: new_model_simps source_label_def blank_model_def)
  have v: "py_in (PyStr ''center'') valid_places"
    by (simp add: py_in_def valid_places_def)
  show "renderers (figure (after_source env c)) = renderers (figure c) @ [next_ref c]"
    using add_layout_ok(2)[OF v p] by (simp add: after_source_def new_model_simps)
qed (simp_all add: after_source_def add_layout_snd new_model_simps source_label_def)

lemma Chart_init_result:
  assumes "Chart_init env bl lay xt yt = Inr c"
  shows "title_ref (figure c) = 0" and "source c = 1" and "subtitle_glyph c = 2"
    and "next_ref c = 3" and "renderers (figure c) = [1, 2]"
    and "kind (heap c 0) = Title" and "kind (heap c 1) = Label" and "kind (heap c 2) = Title"
    and "blank_labels c = get_value env bl" and "style c = make_style env lay"
    and "effects c = []"
    and "py_in (subtitle_location (style c)) valid_places"
    and "text_attr (heap c 0) = (if truthy (get_value env bl) then PyStr [] else default_title)"
    and "text_attr (heap c 1) = (if truthy (get_value env bl) then PyStr [] else default_source)"
    and "text_attr (heap c 2) = (if truthy (get_value env bl) then PyStr [] else default_subtitle)"
proof -
  let ?b = "init_base env bl lay xt yt"
  let ?s = "after_source env ?b"
  let ?m = "snd (new_model (subtitle_title (style ?s) (subtitle_text_of PyNone ?s)) ?s)"
  from assms have vx: "py_in xt valid_x_axis_types" and vy: "py_in yt valid_y_axis_types"
    by (auto simp: Chart_init_def split: if_splits)
  have src: "add_source_to_figure env ?b = (Inr (next_ref ?b),
        snd (add_layout (next_ref ?b) (PyStr ''center'')
                (snd (new_model (source_label env (style ?b) (source_text_of ?b)) ?b))))"
    by (rule add_source_ok)
  from assms obtain g c7 where sub: "add_subtitle_to_figure PyNone ?s = (Inr g, c7)"
    and c: "c = snd (set_title (if truthy (blank_labels c7) then PyStr [] else default_title)
                      (c7\<lparr>subtitle_glyph := g,
                           figure := (figure c7)\<lparr>toolbar_logo := PyNone\<rparr>\<rparr>))"
    unfolding Chart_init_unfold[OF vx vy] src after_source_def
    by (auto split: prod.splits sum.splits)
  from sub have g: "g = Suc (Suc 0)"
    by (simp add: add_subtitle_Inr(1)[OF sub] after_source_simps init_base_simps)
  from sub have c7: "c7 = snd (add_layout (Suc (Suc 0)) (subtitle_location (style ?s)) ?m)"
    using add_subtitle_Inr(2)[OF sub] by (simp add: after_source_simps init_base_simps)
  from sub obtain r where al: "add_layout (Suc (Suc 0)) (subtitle_location (style ?s)) ?m = (Inr r, c7)"
    unfolding add_subtitle_unfold
    by (auto simp: bind_def after_source_simps init_base_simps split: prod.splits sum.splits)
  note al' = add_layout_Inr[OF al]
  show "title_ref (figure c) = 0"
    by (simp add: numeral_2_eq_2 numeral_3_eq_3 c set_title_def c7 add_layout_snd new_model_simps after_source_simps init_base_simps)
  show "source c = 1"
    by (simp add: numeral_2_eq_2 numeral_3_eq_3 c set_title_def c7 add_layout_snd new_model_simps after_source_simps init_base_simps)
  show "subtitle_glyph c = 2" by (simp add: numeral_2_eq_2 numeral_3_eq_3 c set_title_def g)
  show "next_ref c = 3"
    by (simp add: numeral_2_eq_2 numeral_3_eq_3 c set_title_def c7 add_layout_snd new_model_simps after_source_simps init_base_simps)
  show "renderers (figure c) = [1, 2]"
    by (simp add: numeral_2_eq_2 numeral_3_eq_3 c set_title_def al'(2) new_model_simps after_source_simps init_base_simps)
  show "blank_labels c = get_value env bl"
    by (simp add: numeral_2_eq_2 numeral_3_eq_3 c set_title_def c7 add_layout_snd new_model_simps after_source_simps init_base_simps)
  show "style c = make_style env lay"
    by (simp add: numeral_2_eq_2 numeral_3_eq_3 c set_title_def c7 add_layout_snd new_model_simps after_source_simps init_base_simps)
  show "effects c = []"
    by (simp add: numeral_2_eq_2 numeral_3_eq_3 c set_title_def c7 add_layout_snd new_model_simps after_source_simps init_base_simps)
  show "py_in (subtitle_location (style c)) valid_places"
    using al'(1)
    by (simp add: numeral_2_eq_2 numeral_3_eq_3 c set_title_def c7 add_layout_snd new_model_simps after_source_simps init_base_simps)
  have t0: "title_ref (figure c7) = 0"
    by (simp add: c7 add_layout_snd new_model_simps after_source_simps init_base_simps)
  have bl7: "blank_labels c7 = get_value env bl"
    by (simp add: c7 add_layout_snd new_model_simps after_source_simps init_base_simps)
  show "kind (heap c 0) = Title"
    by (simp add: numeral_2_eq_2 numeral_3_eq_3 c set_title_def t0 c7 add_layout_snd new_model_simps after_source_simps init_base_simps)
  show "kind (heap c 1) = Label"
    by (simp add: numeral_2_eq_2 numeral_3_eq_3 c set_title_def t0 c7 add_layout_snd new_model_simps after_source_simps init_base_simps)
  show "kind (heap c 2) = Title"
    by (simp add: numeral_2_eq_2 numeral_3_eq_3 c set_title_def t0 c7 add_layout_snd new_model_simps after_source_simps
        init_base_simps subtitle_title_def)
  show "text_attr (heap c 0) = (if truthy (get_value env bl) then PyStr [] else default_title)"
    by (simp add: numeral_2_eq_2 numeral_3_eq_3 c set_title_def t0 bl7)
  show "text_attr (heap c 1) = (if truthy (get_value env bl) then PyStr [] else default_source)"
    by (simp add: numeral_2_eq_2 numeral_3_eq_3 c set_title_def t0 c7 add_layout_snd new_model_simps after_source_simps
        init_base_simps source_text_of_def)
  show "text_attr (heap c 2) = (if truthy (get_value env bl) then PyStr [] else default_subtitle)"
    by (simp add: numeral_2_eq_2 numeral_3_eq_3 c set_title_def t0 c7 add_layout_snd new_model_simps after_source_simps
        init_base_simps subtitle_title_def subtitle_text_of_def)
qed

lemma Chart_init_ok:
  assumes "py_in xt valid_x_axis_types" and "py_in yt valid_y_axis_types"
    and "py_in (subtitle_location (make_style env lay)) valid_places"
  shows "\<exists>c. Chart_init env bl lay xt yt = Inr c"
proof -
  let ?b = "init_base env bl lay xt yt"
  let ?s = "after_source env ?b"
  have src: "add_source_to_figure env ?b = (Inr (next_ref ?b),
        snd (add_layout (next_ref ?b) (PyStr ''center'')
                (snd (new_model (source_label env (style ?b) (source_text_of ?b)) ?b))))"
    by (rule add_source_ok)
  have "py_in (subtitle_location (style ?s)) valid_places"
    using assms(3) by (simp add: after_source_simps init_base_simps)
  from add_subtitle_ok[OF this, of PyNone]
  show ?thesis
    unfolding Chart_init_unfold[OF assms(1,2)] src
    by (simp add: after_source_def)
qed

lemma valid_x_axis_types_iff:
  "py_in xt valid_x_axis_types \<longleftrightarrow>
   xt \<in> {PyStr ''linear'', PyStr ''log'', PyStr ''datetime'', PyStr ''categorical'', PyStr ''density''}"
  by (auto simp: py_in_def valid_x_axis_types_def)

lemma valid_y_axis_types_iff:
  "py_in yt valid_y_axis_types \<longleftrightarrow>
   yt \<in> {PyStr ''linear'', PyStr ''log'', PyStr ''categorical'', PyStr ''density''}"
  by (auto simp: py_in_def valid_y_axis_types_def)

lemma Chart_init_no_axis_error:
  assumes "py_in xt valid_x_axis_types" and "py_in yt valid_y_axis_types"
  shows "Chart_init env bl lay xt yt \<noteq> Inl x_axis_type_error"
    and "Chart_init env bl lay xt yt \<noteq> Inl y_axis_type_error"
  unfolding Chart_init_unfold[OF assms]
  by (auto split: prod.splits sum.splits dest: add_source_errors add_subtitle_errors)

lemma example_chart_init:
  "Chart_init example_env (PyBool False) (PyStr ''slide_100%'') (PyStr ''linear'') (PyStr ''linear'')
     = Inr example_chart"
proof -
  have "\<exists>c. Chart_init example_env (PyBool False) (PyStr ''slide_100%'') (PyStr ''linear'')
          (PyStr ''linear'') = Inr c"
    by (rule Chart_init_ok)
       (simp_all add: py_in_def valid_x_axis_types_def valid_y_axis_types_def valid_places_def
          example_env_def example_style_def)
  then show ?thesis by (auto simp: example_chart_def constructed_def)
qed

lemma blank_chart_init:
  "Chart_init example_env (PyBool True) (PyStr ''slide_100%'') (PyStr ''datetime'')
     (PyStr ''categorical'') = Inr blank_chart"
proof -
  have "\<exists>c. Chart_init example_env (PyBool True) (PyStr ''slide_100%'') (PyStr ''datetime'')
          (PyStr ''categorical'') = Inr c"
    by (rule Chart_init_ok)
       (simp_all add: py_in_def valid_x_axis_types_def valid_y_axis_types_def valid_places_def
          example_env_def example_style_def)
  then show ?thesis by (auto simp: blank_chart_def constructed_def)
qed

lemma example_chart_facts:
  "style example_chart = example_style" "effects example_chart = []"
  "renderers (figure example_chart) = [1, 2]" "next_ref example_chart = 3"
  "subtitle_glyph example_chart = 2"
  "kind (heap example_chart 1) = Label" "kind (heap example_chart 2) = Title"
  "kind (heap example_chart (Suc 0)) = Label"
  using Chart_init_result[OF example_chart_init] by (simp_all add: example_env_def)

lemma fold_upd_notin:
  "r \<notin> set rs \<Longrightarrow> fold (\<lambda>r h. h(r := upd (h r))) rs h r = h r"
  by (induction rs arbitrary: h) auto

lemma fold_upd_in:
  assumes "\<And>m. upd (upd m) = upd m"
  shows "r \<in> set rs \<Longrightarrow> fold (\<lambda>r h. h(r := upd (h r))) rs h r = upd (h r)"
proof (induction rs arbitrary: h)
  case Nil
  then show ?case by simp
next
  case (Cons a rs)
  show ?case
  proof (cases "r \<in> set rs")
    case True
    then show ?thesis using Cons.IH[of "h(a := upd (h a))"] assms by simp
  next
    case False
    then have "r = a" using Cons.prems by simp
    then show ?thesis
      using False fold_upd_notin[of a rs upd "h(a := upd (h a))"]
      by (simp del: fun_upd_apply) simp
  qed
qed

lemma fold_upd_pres:
  assumes "\<And>m. f (upd m) = f m"
  shows "f (fold (\<lambda>r h. h(r := upd (h r))) rs h x) = f (h x)"
  by (induction rs arbitrary: h) (simp_all add: assms)

lemma set_each_simps:
  "figure (set_each upd rs c) = figure c"
  "next_ref (set_each upd rs c) = next_ref c"
  "effects (set_each upd rs c) = effects c"
  "style (set_each upd rs c) = style c"
  "subtitle_glyph (set_each upd rs c) = subtitle_glyph c"
  "blank_labels (set_each upd rs c) = blank_labels c"
  "set_each upd [] c = c"
  by (simp_all add: set_each_def)

lemma set_each_heap:
  "r \<notin> set rs \<Longrightarrow> heap (set_each upd rs c) r = heap c r"
  "(\<And>m. upd (upd m) = upd m) \<Longrightarrow> r \<in> set rs \<Longrightarrow> heap (set_each upd rs c) r = upd (heap c r)"
  by (simp_all add: set_each_def fold_upd_notin fold_upd_in)

lemma set_each_pres:
  "(\<And>m. f (upd m) = f m) \<Longrightarrow> f (heap (set_each upd rs c) x) = f (heap c x)"
  by (simp add: set_each_def fold_upd_pres)

lemma legend_cong:
  "renderers (figure d) = renderers (figure c) \<Longrightarrow>
   (\<And>x. kind (heap d x) = kind (heap c x)) \<Longrightarrow> legend d = legend c"
  by (simp add: legend_def)

lemma legend_effects: "legend (c\<lparr>effects := e\<rparr>) = legend c"
  by (simp add: legend_def)

lemma assign_legend_empty:
  "legend c = [] \<Longrightarrow>
   assign_legend env attr upd c = c\<lparr>effects := effects c @ empty_legend_warning env attr\<rparr>"
  by (simp add: assign_legend_def Let_def legend_effects set_each_simps)

lemma assign_legend_nonempty:
  "legend c \<noteq> [] \<Longrightarrow> assign_legend env attr upd c = set_each upd (legend c) c"
  by (simp add: assign_legend_def)

lemma assign_legend_simps:
  "figure (assign_legend env attr upd c) = figure c"
  "next_ref (assign_legend env attr upd c) = next_ref c"
  "style (assign_legend env attr upd c) = style c"
  "subtitle_glyph (assign_legend env attr upd c) = subtitle_glyph c"
  "blank_labels (assign_legend env attr upd c) = blank_labels c"
  "effects (assign_legend env attr upd c) =
     effects c @ (if legend c = [] then empty_legend_warning env attr else [])"
  by (simp_all add: assign_legend_def Let_def set_each_simps)

lemma assign_legend_pres:
  "(\<And>m. f (upd m) = f m) \<Longrightarrow> f (heap (assign_legend env attr upd c) x) = f (heap c x)"
  by (simp add: assign_legend_def Let_def set_each_pres)

lemma assign_legend_heap:
  "r \<notin> set (legend c) \<Longrightarrow> heap (assign_legend env attr upd c) r = heap c r"
  "(\<And>m. upd (upd m) = upd m) \<Longrightarrow> r \<in> set (legend c) \<Longrightarrow>
     heap (assign_legend env attr upd c) r = upd (heap c r)"
  by (auto simp: assign_legend_def Let_def set_each_heap legend_effects)

lemma assign_legend_legend:
  "(\<And>m. kind (upd m) = kind m) \<Longrightarrow> legend (assign_legend env attr upd c) = legend c"
  by (rule legend_cong) (simp_all add: assign_legend_simps assign_legend_pres)

lemma add_outside_legend_empty:
  assumes "legend c = []"
  shows "add_outside_legend env ori loc place c =
     (Inr ThisChart, c\<lparr>effects := effects c @ empty_legend_warning env ''location'' @
                          [Warn legend_warning ''UserWarning'']\<rparr>)"
proof -
  have "legend (assign_legend env ''location'' (\<lambda>m. m\<lparr>location_attr := loc\<rparr>) c) = []"
    using assms by (simp add: assign_legend_legend)
  then show ?thesis
    using assms by (simp add: add_outside_legend_def Let_def assign_legend_empty)
qed

lemma add_layout_heap:
  assumes "py_in place valid_places" and "\<not> plot_attr (heap c obj)"
  shows "heap (snd (add_layout obj place c)) = (heap c)(obj := (heap c obj)\<lparr>plot_attr := True\<rparr>)"
  using assms by (simp add: add_layout_def Let_def)

lemma add_layout_figure:
  assumes "\<not> plot_attr (heap c obj)"
  shows "figure (snd (add_layout obj (PyStr ''above'') c)) =
           (figure c)\<lparr>renderers := renderers (figure c) @ [obj], above := above (figure c) @ [obj]\<rparr>"
    and "figure (snd (add_layout obj (PyStr ''below'') c)) =
           (figure c)\<lparr>renderers := renderers (figure c) @ [obj], below := below (figure c) @ [obj]\<rparr>"
    and "figure (snd (add_layout obj (PyStr ''right'') c)) =
           (figure c)\<lparr>renderers := renderers (figure c) @ [obj], right := right (figure c) @ [obj]\<rparr>"
  using assms by (simp_all add: add_layout_def Let_def py_in_def valid_places_def)

lemma add_layout_mono:
  "set (renderers (figure c)) \<subseteq> set (renderers (figure (snd (add_layout obj place c))))"
  "set (above (figure c)) \<subseteq> set (above (figure (snd (add_layout obj place c))))"
  by (auto simp: add_layout_def Let_def)

lemma set_legend_location_top:
  "set_legend_location env (PyStr ''outside_top'') ori c =
     bind (add_outside_legend env ori (PyStr ''top_left'') (PyStr ''above''))
       (\<lambda>r. rerender_subtitle) c"
  by (simp add: set_legend_location_def rerender_subtitle_def[abs_def])

lemma add_outside_legend_unfold:
  assumes "legend c \<noteq> []"
  shows "add_outside_legend env ori loc place c =
     bind (add_layout (hd (legend c)) place) (\<lambda>u c4. (Inr (Value PyNone), c4))
       (detached_legend env ori loc c)"
proof -
  have "legend (assign_legend env ''location'' (\<lambda>m. m\<lparr>location_attr := loc\<rparr>) c) = legend c"
    by (simp add: assign_legend_legend)
  then show ?thesis
    using assms by (simp add: add_outside_legend_def detached_legend_def Let_def)
qed

lemma detached_legend_simps:
  "figure (detached_legend env ori loc c) = figure c"
  "next_ref (detached_legend env ori loc c) = next_ref c"
  "style (detached_legend env ori loc c) = style c"
  "subtitle_glyph (detached_legend env ori loc c) = subtitle_glyph c"
  "blank_labels (detached_legend env ori loc c) = blank_labels c"
  "kind (heap (detached_legend env ori loc c) x) = kind (heap c x)"
  "visible_attr (heap (detached_legend env ori loc c) x) = visible_attr (heap c x)"
  "text_attr (heap (detached_legend env ori loc c) x) = text_attr (heap c x)"
  "\<not> plot_attr (heap (detached_legend env ori loc c) (hd (legend c)))"
  by (simp_all add: detached_legend_def Let_def assign_legend_simps assign_legend_pres
      assign_legend_legend)

lemma detached_legend_first:
  assumes "legend c \<noteq> []"
  shows "effects (detached_legend env ori loc c) = effects c"
    and "location_attr (heap (detached_legend env ori loc c) (hd (legend c))) = loc"
    and "orientation_attr (heap (detached_legend env ori loc c) (hd (legend c))) = ori"
proof -
  show "effects (detached_legend env ori loc c) = effects c"
    using assms by (simp add: detached_legend_def Let_def assign_legend_simps)
  have "hd (legend c) \<in> set (legend c)" using assms by simp
  then have "heap (assign_legend env ''location'' (\<lambda>m. m\<lparr>location_attr := loc\<rparr>) c) (hd (legend c)) =
      (heap c (hd (legend c)))\<lparr>location_attr := loc\<rparr>"
    by (intro assign_legend_heap(2)) simp_all
  then show "location_attr (heap (detached_legend env ori loc c) (hd (legend c))) = loc"
    by (simp add: detached_legend_def Let_def assign_legend_legend)
  show "orientation_attr (heap (detached_legend env ori loc c) (hd (legend c))) = ori"
    by (simp add: detached_legend_def Let_def assign_legend_legend)
qed

lemma add_outside_legend_ok:
  assumes "legend c \<noteq> []" and "py_in place valid_places"
  shows "add_outside_legend env ori loc place c =
     (Inr (Value PyNone), snd (add_layout (hd (legend c)) place (detached_legend env ori loc c)))"
proof -
  have "fst (add_layout (hd (legend c)) place (detached_legend env ori loc c)) = Inr ()"
    using assms(2) by (intro add_layout_ok(1)) (simp_all add: detached_legend_simps)
  then have "add_layout (hd (legend c)) place (detached_legend env ori loc c) =
      (Inr (), snd (add_layout (hd (legend c)) place (detached_legend env ori loc c)))"
    by (metis prod.collapse)
  then show ?thesis
    unfolding add_outside_legend_unfold[OF assms(1)] by (rule bind_ok[THEN trans]) simp
qed

lemma add_layout_heap_other:
  "x \<noteq> obj \<Longrightarrow> heap (snd (add_layout obj place c)) x = heap c x"
  by (simp add: add_layout_def Let_def)

lemma index_of_Some:
  "x \<in> set xs \<Longrightarrow> \<exists>i. index_of x xs = Some i \<and> i < length xs \<and> xs ! i = x"
  by (induction xs) auto

lemma pop_keeps:
  assumes "i < length xs" and "y \<in> set xs" and "y \<noteq> xs ! i"
  shows "y \<in> set (pop i xs)"
proof -
  have "xs = take i xs @ xs ! i # drop (Suc i) xs"
    using assms(1) by (rule id_take_nth_drop)
  then have "set xs = set (take i xs) \<union> {xs ! i} \<union> set (drop (Suc i) xs)"
    by (metis Un_insert_right append_Nil2 list.simps(15) set_append sup_bot.right_neutral
        Un_assoc Un_insert_left sup_bot.left_neutral)
  then show ?thesis using assms(2,3) by (auto simp: pop_def)
qed

lemma rerender_subtitle_ok:
  assumes "subtitle_glyph c \<in> set (renderers (figure c))"
    and "py_in (subtitle_location (style c)) valid_places"
  shows "fst (rerender_subtitle c) = Inr ThisChart"
    and "effects (snd (rerender_subtitle c)) = effects c"
    and "set (above (figure c)) \<subseteq> set (above (figure (snd (rerender_subtitle c))))"
    and "y \<in> set (renderers (figure c)) \<Longrightarrow> y \<noteq> subtitle_glyph c \<Longrightarrow>
           y \<in> set (renderers (figure (snd (rerender_subtitle c))))"
    and "x \<noteq> next_ref c \<Longrightarrow> heap (snd (rerender_subtitle c)) x = heap c x"
proof -
  from index_of_Some[OF assms(1)] obtain i where
    i: "index_of (subtitle_glyph c) (renderers (figure c)) = Some i"
      "i < length (renderers (figure c))" "renderers (figure c) ! i = subtitle_glyph c"
    by blast
  let ?c2 = "c\<lparr>figure := (figure c)\<lparr>renderers := pop i (renderers (figure c))\<rparr>\<rparr>"
  let ?t = "text_attr (heap ?c2 (subtitle_glyph ?c2))"
  let ?n = "snd (new_model (subtitle_title (style ?c2) (subtitle_text_of ?t ?c2)) ?c2)"
  let ?d = "snd (add_layout (next_ref ?c2) (subtitle_location (style ?c2)) ?n)"
  have "py_in (subtitle_location (style ?c2)) valid_places" using assms(2) by simp
  then have "add_subtitle_to_figure ?t ?c2 = (Inr (next_ref ?c2), ?d)"
    by (rule add_subtitle_ok)
  then have "bind (add_subtitle_to_figure ?t)
               (\<lambda>g c3. (Inr ThisChart, c3\<lparr>subtitle_glyph := g\<rparr>)) ?c2 =
             (Inr ThisChart, ?d\<lparr>subtitle_glyph := next_ref ?c2\<rparr>)"
    by (rule bind_ok[THEN trans]) simp
  then have r: "rerender_subtitle c = (Inr ThisChart, ?d\<lparr>subtitle_glyph := next_ref ?c2\<rparr>)"
    using i(1) by (simp add: rerender_subtitle_def Let_def)
  show "fst (rerender_subtitle c) = Inr ThisChart" by (simp add: r)
  show "effects (snd (rerender_subtitle c)) = effects c"
    by (simp add: r add_layout_snd new_model_simps)
  have "set (above (figure ?n)) \<subseteq> set (above (figure ?d))" by (rule add_layout_mono)
  then show "set (above (figure c)) \<subseteq> set (above (figure (snd (rerender_subtitle c))))"
    by (simp add: r new_model_simps)
  have m: "set (renderers (figure ?n)) \<subseteq> set (renderers (figure ?d))" by (rule add_layout_mono)
  show "y \<in> set (renderers (figure (snd (rerender_subtitle c))))"
    if "y \<in> set (renderers (figure c))" and "y \<noteq> subtitle_glyph c"
  proof -
    have "y \<in> set (pop i (renderers (figure c)))"
      using i(2) that(1) that(2) i(3) by (intro pop_keeps) simp_all
    then have "y \<in> set (renderers (figure ?n))" by (simp add: new_model_simps)
    then show ?thesis using m by (auto simp: r)
  qed
  show "heap (snd (rerender_subtitle c)) x = heap c x" if "x \<noteq> next_ref c"
    using that by (simp add: r add_layout_heap_other new_model_simps)
qed

lemma valid_places_simps:
  "py_in (PyStr ''above'') valid_places" "py_in (PyStr ''below'') valid_places"
  "py_in (PyStr ''right'') valid_places" "py_in (PyStr ''center'') valid_places"
  by (simp_all add: py_in_def valid_places_def)

lemma moved_legend:
  assumes "legend c \<noteq> []" and "py_in place valid_places"
    and d_def: "d = snd (add_layout (hd (legend c)) place (detached_legend env ori loc c))"
  shows "kind (heap d x) = kind (heap c x)"
    and "visible_attr (heap d x) = visible_attr (heap c x)"
    and "next_ref d = next_ref c" and "style d = style c"
    and "subtitle_glyph d = subtitle_glyph c" and "effects d = effects c"
    and "renderers (figure d) = renderers (figure c) @ [hd (legend c)]"
    and "plot_attr (heap d (hd (legend c)))"
    and "location_attr (heap d (hd (legend c))) = loc"
    and "orientation_attr (heap d (hd (legend c))) = ori"
    and "hd (legend c) \<in> set (legend d)"
proof -
  let ?l = "hd (legend c)"
  let ?e = "detached_legend env ori loc c"
  have np: "\<not> plot_attr (heap ?e ?l)" by (simp add: detached_legend_simps)
  show k: "kind (heap d x) = kind (heap c x)" for x
    by (simp add: d_def add_layout_snd detached_legend_simps)
  show "visible_attr (heap d x) = visible_attr (heap c x)"
    by (simp add: d_def add_layout_snd detached_legend_simps)
  show "next_ref d = next_ref c" by (simp add: d_def add_layout_snd detached_legend_simps)
  show "style d = style c" by (simp add: d_def add_layout_snd detached_legend_simps)
  show "subtitle_glyph d = subtitle_glyph c"
    by (simp add: d_def add_layout_snd detached_legend_simps)
  show "effects d = effects c"
    using assms(1) by (simp add: d_def add_layout_snd detached_legend_first)
  show r: "renderers (figure d) = renderers (figure c) @ [?l]"
    using add_layout_ok(2)[OF assms(2) np] by (simp add: d_def detached_legend_simps)
  have h: "heap d = (heap ?e)(?l := (heap ?e ?l)\<lparr>plot_attr := True\<rparr>)"
    unfolding d_def using assms(2) np by (rule add_layout_heap)
  show "plot_attr (heap d ?l)" by (simp add: h)
  show "location_attr (heap d ?l) = loc"
    using assms(1) by (simp add: h detached_legend_first)
  show "orientation_attr (heap d ?l) = ori"
    using assms(1) by (simp add: h detached_legend_first)
  have "?l \<in> set (legend c)" using assms(1) by simp
  then have "kind (heap c ?l) = Legend" by (simp add: legend_def)
  then show "?l \<in> set (legend d)" by (simp add: legend_def r k)
qed

lemma set_legend_location_outside:
  assumes "legend c \<noteq> []"
  shows "set_legend_location env (PyStr ''outside_bottom'') ori c =
           (Inr ThisChart, snd (add_layout (hd (legend c)) (PyStr ''below'')
              (detached_legend env ori (PyStr ''bottom_center'') c)))"
    and "set_legend_location env (PyStr ''outside_right'') ori c =
           (Inr ThisChart, snd (add_layout (hd (legend c)) (PyStr ''right'')
              (detached_legend env ori (PyStr ''top_left'') c)))"
    and "set_legend_location env (PyStr ''outside_top'') ori c =
           rerender_subtitle (snd (add_layout (hd (legend c)) (PyStr ''above'')
              (detached_legend env ori (PyStr ''top_left'') c)))"
proof -
  show "set_legend_location env (PyStr ''outside_bottom'') ori c =
           (Inr ThisChart, snd (add_layout (hd (legend c)) (PyStr ''below'')
              (detached_legend env ori (PyStr ''bottom_center'') c)))"
    by (simp add: set_legend_location_def bind_def
        add_outside_legend_ok[OF assms valid_places_simps(2)])
  show "set_legend_location env (PyStr ''outside_right'') ori c =
           (Inr ThisChart, snd (add_layout (hd (legend c)) (PyStr ''right'')
              (detached_legend env ori (PyStr ''top_left'') c)))"
    by (simp add: set_legend_location_def bind_def
        add_outside_legend_ok[OF assms valid_places_simps(3)])
  show "set_legend_location env (PyStr ''outside_top'') ori c =
           rerender_subtitle (snd (add_layout (hd (legend c)) (PyStr ''above'')
              (detached_legend env ori (PyStr ''top_left'') c)))"
    unfolding set_legend_location_top
    by (simp add: bind_def add_outside_legend_ok[OF assms valid_places_simps(1)])
qed

lemma set_legend_location_no_legend:
  assumes "legend c = []"
  shows "set_legend_location env (PyStr ''outside_bottom'') ori c =
           (Inr ThisChart, c\<lparr>effects := effects c @ empty_legend_warning env ''location'' @
                                 [Warn legend_warning ''UserWarning'']\<rparr>)"
    and "set_legend_location env (PyStr ''outside_right'') ori c =
           (Inr ThisChart, c\<lparr>effects := effects c @ empty_legend_warning env ''location'' @
                                 [Warn legend_warning ''UserWarning'']\<rparr>)"
    and "set_legend_location env (PyStr ''outside_top'') ori c =
           rerender_subtitle (c\<lparr>effects := effects c @ empty_legend_warning env ''location'' @
                                 [Warn legend_warning ''UserWarning'']\<rparr>)"
    and "set_legend_location env PyNone ori c =
           (Inr ThisChart, c\<lparr>effects := effects c @ empty_legend_warning env ''visible''\<rparr>)"
    and "location \<notin> {PyStr ''outside_top'', PyStr ''outside_bottom'', PyStr ''outside_right'',
            PyNone} \<Longrightarrow>
         set_legend_location env location ori c =
           (Inr ThisChart, c\<lparr>effects := effects c @ empty_legend_warning env ''location'' @
                                 empty_legend_warning env ''orientation''\<rparr>)"
proof -
  note a = add_outside_legend_empty[OF assms]
  show "set_legend_location env (PyStr ''outside_bottom'') ori c =
           (Inr ThisChart, c\<lparr>effects := effects c @ empty_legend_warning env ''location'' @
                                 [Warn legend_warning ''UserWarning'']\<rparr>)"
    by (simp add: set_legend_location_def bind_def a)
  show "set_legend_location env (PyStr ''outside_right'') ori c =
           (Inr ThisChart, c\<lparr>effects := effects c @ empty_legend_warning env ''location'' @
                                 [Warn legend_warning ''UserWarning'']\<rparr>)"
    by (simp add: set_legend_location_def bind_def a)
  show "set_legend_location env (PyStr ''outside_top'') ori c =
           rerender_subtitle (c\<lparr>effects := effects c @ empty_legend_warning env ''location'' @
                                 [Warn legend_warning ''UserWarning'']\<rparr>)"
    unfolding set_legend_location_top by (simp add: bind_def a)
  show "set_legend_location env PyNone ori c =
           (Inr ThisChart, c\<lparr>effects := effects c @ empty_legend_warning env ''visible''\<rparr>)"
    using assms by (simp add: set_legend_location_def assign_legend_empty)
  show "set_legend_location env location ori c =
           (Inr ThisChart, c\<lparr>effects := effects c @ empty_legend_warning env ''location'' @
                                 empty_legend_warning env ''orientation''\<rparr>)"
    if "location \<notin> {PyStr ''outside_top'', PyStr ''outside_bottom'', PyStr ''outside_right'',
            PyNone}"
    using that assms
    by (simp add: set_legend_location_def Let_def assign_legend_empty legend_effects)
qed

lemma legend_first:
  assumes "legend c \<noteq> []"
  shows "hd (legend c) \<in> set (renderers (figure c))" and "kind (heap c (hd (legend c))) = Legend"
proof -
  have "hd (legend c) \<in> set (legend c)" using assms by simp
  then show "hd (legend c) \<in> set (renderers (figure c))"
    and "kind (heap c (hd (legend c))) = Legend"
    by (simp_all add: legend_def)
qed

lemma set_legend_location_None:
  "fst (set_legend_location env PyNone ori c) = Inr ThisChart"
  "figure (snd (set_legend_location env PyNone ori c)) = figure c"
  "legend (snd (set_legend_location env PyNone ori c)) = legend c"
  "r \<in> set (legend c) \<Longrightarrow> \<not> visible_attr (heap (snd (set_legend_location env PyNone ori c)) r)"
  "r \<notin> set (legend c) \<Longrightarrow> heap (snd (set_legend_location env PyNone ori c)) r = heap c r"
  by (simp_all add: set_legend_location_def assign_legend_simps assign_legend_legend
      assign_legend_heap)

lemma set_legend_location_top_ok:
  assumes "legend c \<noteq> []" and "chart_ok c"
  shows "fst (set_legend_location env (PyStr ''outside_top'') ori c) = Inr ThisChart"
    and "hd (legend c) \<in> set (above (figure (snd (set_legend_location env (PyStr ''outside_top'') ori c))))"
    and "hd (legend c) \<in> set (legend (snd (set_legend_location env (PyStr ''outside_top'') ori c)))"
    and "plot_attr (heap (snd (set_legend_location env (PyStr ''outside_top'') ori c)) (hd (legend c)))"
    and "visible_attr (heap (snd (set_legend_location env (PyStr ''outside_top'') ori c)) (hd (legend c))) =
           visible_attr (heap c (hd (legend c)))"
proof -
  let ?l = "hd (legend c)"
  let ?e = "detached_legend env ori (PyStr ''top_left'') c"
  let ?d = "snd (add_layout ?l (PyStr ''above'') ?e)"
  let ?r = "set_legend_location env (PyStr ''outside_top'') ori c"
  note m = moved_legend[OF assms(1) valid_places_simps(1) refl, of env ori "PyStr ''top_left''"]
  have r: "?r = rerender_subtitle ?d" by (rule set_legend_location_outside(3)[OF assms(1)])
  have lr: "?l \<in> set (renderers (figure c))" and lk: "kind (heap c ?l) = Legend"
    using legend_first[OF assms(1)] by simp_all
  from assms(2) have sub: "subtitle_glyph c \<in> set (renderers (figure c))"
    and sk: "kind (heap c (subtitle_glyph c)) = Title"
    and pl: "py_in (subtitle_location (style c)) valid_places"
    and al: "list_all (\<lambda>r. r < next_ref c) (renderers (figure c))"
    by (simp_all add: chart_ok_def)
  have ne: "?l \<noteq> subtitle_glyph c" using lk sk by auto
  have lt: "?l \<noteq> next_ref c" using al lr by (auto simp: list_all_iff)
  have s1: "subtitle_glyph ?d \<in> set (renderers (figure ?d))" using sub by (simp add: m)
  have s2: "py_in (subtitle_location (style ?d)) valid_places" using pl by (simp add: m)
  note ok = rerender_subtitle_ok[OF s1 s2]
  show "fst ?r = Inr ThisChart" by (simp add: r ok(1))
  have "\<not> plot_attr (heap ?e ?l)" by (simp add: detached_legend_simps)
  then have "?l \<in> set (above (figure ?d))" by (simp add: add_layout_figure(1))
  then show "?l \<in> set (above (figure (snd ?r)))" using ok(3) by (auto simp: r)
  have h: "heap (snd ?r) ?l = heap ?d ?l" using lt by (simp add: r ok(5) m)
  have "?l \<in> set (renderers (figure ?d))" by (simp add: m)
  then have "?l \<in> set (renderers (figure (snd ?r)))"
    unfolding r using ne by (intro ok(4)) (simp_all add: m)
  moreover have "kind (heap (snd ?r) ?l) = Legend" by (simp add: h m lk)
  ultimately show "?l \<in> set (legend (snd ?r))" by (simp add: legend_def)
  show "plot_attr (heap (snd ?r) ?l)" by (simp add: h m)
  show "visible_attr (heap (snd ?r) ?l) = visible_attr (heap c ?l)" by (simp add: h m)
qed

lemma set_legend_location_top_no_legend:
  assumes "legend c = []" and "chart_ok c"
  shows "fst (set_legend_location env (PyStr ''outside_top'') ori c) = Inr ThisChart"
    and "effects (snd (set_legend_location env (PyStr ''outside_top'') ori c)) =
           effects c @ empty_legend_warning env ''location'' @ [Warn legend_warning ''UserWarning'']"
proof -
  let ?d = "c\<lparr>effects := effects c @ empty_legend_warning env ''location'' @
                                 [Warn legend_warning ''UserWarning'']\<rparr>"
  from assms(2) have s1: "subtitle_glyph ?d \<in> set (renderers (figure ?d))"
    and s2: "py_in (subtitle_location (style ?d)) valid_places"
    by (simp_all add: chart_ok_def)
  note ok = rerender_subtitle_ok[OF s1 s2]
  show "fst (set_legend_location env (PyStr ''outside_top'') ori c) = Inr ThisChart"
    unfolding set_legend_location_no_legend(3)[OF assms(1)] by (rule ok(1))
  show "effects (snd (set_legend_location env (PyStr ''outside_top'') ori c)) =
           effects c @ empty_legend_warning env ''location'' @ [Warn legend_warning ''UserWarning'']"
    unfolding set_legend_location_no_legend(3)[OF assms(1)] using ok(2) by simp
qed

lemma set_legend_location_returns:
  assumes "location \<noteq> PyStr ''outside_top'' \<or> chart_ok c"
  shows "fst (set_legend_location env location ori c) = Inr ThisChart"
proof (cases "legend c = []")
  case True
  consider "location = PyStr ''outside_top''" | "location = PyStr ''outside_bottom''"
    | "location = PyStr ''outside_right''" | "location = PyNone"
    | "location \<notin> {PyStr ''outside_top'', PyStr ''outside_bottom'', PyStr ''outside_right'',
            PyNone}" by auto
  then show ?thesis
  proof cases
    case 1
    then show ?thesis using assms set_legend_location_top_no_legend(1)[OF True] by simp
  next
    case 2
    then show ?thesis by (simp add: set_legend_location_no_legend(1)[OF True])
  next
    case 3
    then show ?thesis by (simp add: set_legend_location_no_legend(2)[OF True])
  next
    case 4
    then show ?thesis by (simp add: set_legend_location_None)
  next
    case 5
    then show ?thesis by (simp add: set_legend_location_no_legend(5)[OF True])
  qed
next
  case False
  consider "location = PyStr ''outside_top''" | "location = PyStr ''outside_bottom''"
    | "location = PyStr ''outside_right''"
    | "location \<notin> {PyStr ''outside_top'', PyStr ''outside_bottom'', PyStr ''outside_right''}"
    by auto
  then show ?thesis
  proof cases
    case 1
    then show ?thesis using assms set_legend_location_top_ok(1)[OF False] by simp
  next
    case 2
    then show ?thesis by (simp add: set_legend_location_outside(1)[OF False])
  next
    case 3
    then show ?thesis by (simp add: set_legend_location_outside(2)[OF False])
  next
    case 4
    then show ?thesis by (simp add: set_legend_location_def Let_def)
  qed
qed

lemma example_chart_ok: "chart_ok example_chart"
  using Chart_init_result(12)[OF example_chart_init]
  by (simp add: chart_ok_def example_chart_facts)


lemma plot_with_legend_simps:
  "renderers (figure (plot_with_legend c)) = renderers (figure c) @ [next_ref c]"
  "next_ref (plot_with_legend c) = Suc (next_ref c)"
  "style (plot_with_legend c) = style c"
  "subtitle_glyph (plot_with_legend c) = subtitle_glyph c"
  "effects (plot_with_legend c) = effects c"
  "kind (heap (plot_with_legend c) x) = (if x = next_ref c then Legend else kind (heap c x))"
  "visible_attr (heap (plot_with_legend c) (next_ref c))"
  by (simp_all add: plot_with_legend_def new_model_def add_layout_def Let_def py_in_def
      valid_places_def blank_model_def)

lemma example_legend: "legend (plot_with_legend example_chart) = [3]"
  by (simp add: legend_def plot_with_legend_simps example_chart_facts)

lemma example_legend_ok: "chart_ok (plot_with_legend example_chart)"
  using example_chart_ok
  by (simp add: chart_ok_def plot_with_legend_simps example_chart_facts)

lemma rerender_subtitle_ret:
  "fst (rerender_subtitle c) = Inr ThisChart \<or> (\<exists>e. fst (rerender_subtitle c) = Inl e)"
  by (auto simp: rerender_subtitle_def bind_def Let_def
      split: option.splits prod.splits sum.splits)

lemma set_legend_location_ret:
  "fst (set_legend_location env location ori c) = Inr ThisChart \<or>
   (\<exists>e. fst (set_legend_location env location ori c) = Inl e)"
proof (cases "location = PyStr ''outside_top''")
  case True
  show ?thesis
    unfolding True set_legend_location_top
    using rerender_subtitle_ret
    by (auto simp: bind_def split: prod.splits sum.splits)
next
  case False
  then show ?thesis by (simp add: set_legend_location_returns)
qed

lemma save_ret:
  "fst (save env filename format c) = Inr ThisChart \<or>
   (\<exists>e. fst (save env filename format c) = Inl e)"
  by (auto simp: save_def bind_def set_toolbar_for_format_def split: prod.splits sum.splits)

section \<open>Properties of the chart\<close>

text \<open>
  C4. For every chart and every value \<open>s\<close> (in particular every string), the title read
  after \<open>set_title(s)\<close> is \<open>s\<close>, the subtitle read after \<open>set_subtitle(s)\<close> is \<open>s\<close>, and
  the source text read after \<open>set_source_label(s)\<close> is \<open>s\<close>.
\<close>

theorem setter_then_getter:
  "title (snd (set_title s c)) = s \<and>
   subtitle (snd (set_subtitle s c)) = s \<and>
   source_text (snd (set_source_label s c)) = s"
  by (simp add: title_def set_title_def subtitle_def set_subtitle_def
      source_text_def set_source_label_def)

text \<open>
  C3. Constructing a chart with an x-axis type that is not one of linear, log, datetime,
  categorical, density raises the \<open>ValueError\<close> that names these five valid x-axis
  types; with a valid x-axis type and a y-axis type that is not one of linear, log,
  categorical, density it raises the \<open>ValueError\<close> that names these four valid y-axis
  types; for a pair of valid types neither error is raised. Hence one of the two errors
  is raised if and only if one of the two types is not valid.
\<close>

theorem axis_type_validation:
  "(xt \<notin> {PyStr ''linear'', PyStr ''log'', PyStr ''datetime'', PyStr ''categorical'',
            PyStr ''density''} \<longrightarrow>
      Chart_init env bl lay xt yt =
        Inl (ValueError (WithOptions ''x_axis_type must be one of {options}''
               [''linear'', ''log'', ''datetime'', ''categorical'', ''density'']))) \<and>
   (xt \<in> {PyStr ''linear'', PyStr ''log'', PyStr ''datetime'', PyStr ''categorical'',
            PyStr ''density''} \<and>
    yt \<notin> {PyStr ''linear'', PyStr ''log'', PyStr ''categorical'', PyStr ''density''} \<longrightarrow>
      Chart_init env bl lay xt yt =
        Inl (ValueError (WithOptions ''y_axis_type must be one of {options}''
               [''linear'', ''log'', ''categorical'', ''density'']))) \<and>
   (xt \<in> {PyStr ''linear'', PyStr ''log'', PyStr ''datetime'', PyStr ''categorical'',
            PyStr ''density''} \<and>
    yt \<in> {PyStr ''linear'', PyStr ''log'', PyStr ''categorical'', PyStr ''density''} \<longrightarrow>
      Chart_init env bl lay xt yt \<noteq> Inl x_axis_type_error \<and>
      Chart_init env bl lay xt yt \<noteq> Inl y_axis_type_error) \<and>
   ((Chart_init env bl lay xt yt = Inl x_axis_type_error \<or>
     Chart_init env bl lay xt yt = Inl y_axis_type_error) \<longleftrightarrow>
    (xt \<notin> {PyStr ''linear'', PyStr ''log'', PyStr ''datetime'', PyStr ''categorical'',
             PyStr ''density''} \<or>
     yt \<notin> {PyStr ''linear'', PyStr ''log'', PyStr ''categorical'', PyStr ''density''})) \<and>
   x_axis_type_error = ValueError (WithOptions ''x_axis_type must be one of {options}''
      [''linear'', ''log'', ''datetime'', ''categorical'', ''density'']) \<and>
   y_axis_type_error = ValueError (WithOptions ''y_axis_type must be one of {options}''
      [''linear'', ''log'', ''categorical'', ''density''])"
proof -
  have ex: "x_axis_type_error = ValueError (WithOptions ''x_axis_type must be one of {options}''
      [''linear'', ''log'', ''datetime'', ''categorical'', ''density''])"
    by (simp add: x_axis_type_error_def valid_x_axis_types_def)
  have ey: "y_axis_type_error = ValueError (WithOptions ''y_axis_type must be one of {options}''
      [''linear'', ''log'', ''categorical'', ''density''])"
    by (simp add: y_axis_type_error_def valid_y_axis_types_def)
  have bx: "\<not> py_in xt valid_x_axis_types \<Longrightarrow> Chart_init env bl lay xt yt = Inl x_axis_type_error"
    by (simp add: Chart_init_def)
  have by': "py_in xt valid_x_axis_types \<Longrightarrow> \<not> py_in yt valid_y_axis_types \<Longrightarrow>
      Chart_init env bl lay xt yt = Inl y_axis_type_error"
    by (simp add: Chart_init_def)
  have ok: "py_in xt valid_x_axis_types \<Longrightarrow> py_in yt valid_y_axis_types \<Longrightarrow>
      Chart_init env bl lay xt yt \<noteq> Inl x_axis_type_error \<and>
      Chart_init env bl lay xt yt \<noteq> Inl y_axis_type_error"
    using Chart_init_no_axis_error[of xt yt env bl lay] by simp
  show ?thesis
    unfolding valid_x_axis_types_iff[symmetric] valid_y_axis_types_iff[symmetric]
      ex[symmetric] ey[symmetric]
    using bx by' ok ex ey by blast
qed

theorem axis_type_validation_witness:
  "PyStr ''pie'' \<notin> {PyStr ''linear'', PyStr ''log'', PyStr ''datetime'', PyStr ''categorical'',
        PyStr ''density''} \<and>
   Chart_init example_env (PyBool False) (PyStr ''slide_100%'') (PyStr ''pie'') (PyStr ''linear'') =
     Inl (ValueError (WithOptions ''x_axis_type must be one of {options}''
            [''linear'', ''log'', ''datetime'', ''categorical'', ''density''])) \<and>
   PyStr ''linear'' \<in> {PyStr ''linear'', PyStr ''log'', PyStr ''datetime'', PyStr ''categorical'',
        PyStr ''density''} \<and>
   PyStr ''datetime'' \<notin> {PyStr ''linear'', PyStr ''log'', PyStr ''categorical'', PyStr ''density''} \<and>
   Chart_init example_env (PyBool False) (PyStr ''slide_100%'') (PyStr ''linear'')
       (PyStr ''datetime'') =
     Inl (ValueError (WithOptions ''y_axis_type must be one of {options}''
            [''linear'', ''log'', ''categorical'', ''density''])) \<and>
   PyStr ''linear'' \<in> {PyStr ''linear'', PyStr ''log'', PyStr ''categorical'', PyStr ''density''} \<and>
   Chart_init example_env (PyBool False) (PyStr ''slide_100%'') (PyStr ''linear'')
       (PyStr ''linear'') \<noteq> Inl x_axis_type_error \<and>
   Chart_init example_env (PyBool False) (PyStr ''slide_100%'') (PyStr ''linear'')
       (PyStr ''linear'') \<noteq> Inl y_axis_type_error"
  using axis_type_validation[of "PyStr ''pie''" example_env "PyBool False" "PyStr ''slide_100%''"
      "PyStr ''linear''"]
    axis_type_validation[of "PyStr ''linear''" example_env "PyBool False" "PyStr ''slide_100%''"
      "PyStr ''datetime''"]
    axis_type_validation[of "PyStr ''linear''" example_env "PyBool False" "PyStr ''slide_100%''"
      "PyStr ''linear''"]
  by simp

text \<open>
  C5. Right after construction, a chart whose \<open>blank_labels\<close> option is true has an empty
  title, subtitle and source text; one whose option is false has the three placeholder
  texts.
\<close>

theorem default_labels:
  assumes "Chart_init env bl lay xt yt = Inr c"
  shows "(truthy (get_value env bl) \<longrightarrow>
            title c = PyStr [] \<and> subtitle c = PyStr [] \<and> source_text c = PyStr []) \<and>
         (\<not> truthy (get_value env bl) \<longrightarrow>
            title c = PyStr ''ch.set_title('Takeaway')'' \<and>
            subtitle c = PyStr ''ch.set_subtitle('Data Description')'' \<and>
            source_text c = PyStr ''ch.set_source_label('Source')'')"
  using Chart_init_result[OF assms]
  by (simp add: title_def subtitle_def source_text_def default_title_def default_subtitle_def
      default_source_def)

theorem default_labels_witness:
  "truthy (get_value example_env (PyBool True)) \<and>
   Chart_init example_env (PyBool True) (PyStr ''slide_100%'') (PyStr ''datetime'')
     (PyStr ''categorical'') = Inr blank_chart \<and>
   title blank_chart = PyStr [] \<and> subtitle blank_chart = PyStr [] \<and>
   source_text blank_chart = PyStr [] \<and>
   \<not> truthy (get_value example_env (PyBool False)) \<and>
   Chart_init example_env (PyBool False) (PyStr ''slide_100%'') (PyStr ''linear'')
     (PyStr ''linear'') = Inr example_chart \<and>
   title example_chart = PyStr ''ch.set_title('Takeaway')'' \<and>
   subtitle example_chart = PyStr ''ch.set_subtitle('Data Description')'' \<and>
   source_text example_chart = PyStr ''ch.set_source_label('Source')''"
  using default_labels[OF blank_chart_init] default_labels[OF example_chart_init]
    blank_chart_init example_chart_init
  by (simp add: example_env_def)

text \<open>
  C1. \<open>_figure_to_png\<close> returns the decoded screenshot unchanged when its size is the
  chart's configured \<open>(plot_width, plot_height)\<close> and otherwise the screenshot resized to
  exactly that size with the Lanczos filter; every image it returns has that size; and
  \<open>save(filename, format='png')\<close> hides the toolbar, writes the image that
  \<open>_figure_to_png\<close> returns, of that size, to the file, prints the file name and returns
  the chart.
\<close>

theorem png_dimensions:
  "(screenshot env (plot_width (style c), plot_height (style c))
      (file_html env (heap c) (figure c)) = Inr png \<and>
    image_open env png = Inr raw \<longrightarrow>
      figure_to_png env c =
        Inr (if image_size raw = (plot_width (style c), plot_height (style c)) then raw
             else Resized raw (plot_width (style c), plot_height (style c)) LANCZOS)) \<and>
   (figure_to_png env c = Inr img \<longrightarrow>
      image_size img = (plot_width (style c), plot_height (style c))) \<and>
   (figure_to_png env (c\<lparr>figure := (figure c)\<lparr>toolbar_location := PyNone\<rparr>\<rparr>) = Inr img \<longrightarrow>
      save env filename (PyStr ''png'') c =
        (Inr ThisChart,
         c\<lparr>figure := (figure c)\<lparr>toolbar_location := PyNone\<rparr>,
           effects := effects c @ [SaveImage filename img, Print (''Saved to '' @ filename)]\<rparr>) \<and>
      image_size img = (plot_width (style c), plot_height (style c)))"
proof (intro conjI impI)
  assume "screenshot env (plot_width (style c), plot_height (style c))
      (file_html env (heap c) (figure c)) = Inr png \<and> image_open env png = Inr raw"
  then show "figure_to_png env c =
        Inr (if image_size raw = (plot_width (style c), plot_height (style c)) then raw
             else Resized raw (plot_width (style c), plot_height (style c)) LANCZOS)"
    by (simp add: figure_to_png_def)
next
  assume "figure_to_png env c = Inr img"
  then show "image_size img = (plot_width (style c), plot_height (style c))"
    by (auto simp: figure_to_png_def Let_def split: sum.splits if_splits)
next
  assume a: "figure_to_png env (c\<lparr>figure := (figure c)\<lparr>toolbar_location := PyNone\<rparr>\<rparr>) = Inr img"
  then show "save env filename (PyStr ''png'') c =
        (Inr ThisChart,
         c\<lparr>figure := (figure c)\<lparr>toolbar_location := PyNone\<rparr>,
           effects := effects c @ [SaveImage filename img, Print (''Saved to '' @ filename)]\<rparr>)"
    by (simp add: save_def bind_def set_toolbar_for_format_def)
  from a show "image_size img = (plot_width (style c), plot_height (style c))"
    by (auto simp: figure_to_png_def Let_def split: sum.splits if_splits)
qed

theorem png_dimensions_witness:
  "screenshot example_env (960, 540) ''<html></html>'' = Inr [1920, 1080] \<and>
   image_open example_env [1920, 1080] = Inr (Decoded (1920, 1080) [1920, 1080]) \<and>
   figure_to_png example_env
       (example_chart\<lparr>figure := (figure example_chart)\<lparr>toolbar_location := PyNone\<rparr>\<rparr>) =
     Inr (Resized (Decoded (1920, 1080) [1920, 1080]) (960, 540) LANCZOS) \<and>
   save example_env ''chart.png'' (PyStr ''png'') example_chart =
     (Inr ThisChart,
      example_chart\<lparr>figure := (figure example_chart)\<lparr>toolbar_location := PyNone\<rparr>,
        effects := effects example_chart @
          [SaveImage ''chart.png'' (Resized (Decoded (1920, 1080) [1920, 1080]) (960, 540) LANCZOS),
           Print (''Saved to '' @ ''chart.png'')]\<rparr>) \<and>
   image_size (Resized (Decoded (1920, 1080) [1920, 1080]) (960, 540) LANCZOS) =
     (plot_width (style example_chart), plot_height (style example_chart))"
proof -
  let ?c = "example_chart\<lparr>figure := (figure example_chart)\<lparr>toolbar_location := PyNone\<rparr>\<rparr>"
  have s: "screenshot example_env (plot_width (style ?c), plot_height (style ?c))
      (file_html example_env (heap ?c) (figure ?c)) = Inr [1920, 1080]"
    by (simp add: example_chart_facts example_env_def example_style_def)
  have o: "image_open example_env [1920, 1080] = Inr (Decoded (1920, 1080) [1920, 1080])"
    by (simp add: example_env_def)
  have f: "figure_to_png example_env ?c =
     Inr (Resized (Decoded (1920, 1080) [1920, 1080]) (960, 540) LANCZOS)"
    using png_dimensions[of example_env ?c "[1920, 1080]" "Decoded (1920, 1080) [1920, 1080]"] s o
    by (simp add: example_chart_facts example_style_def)
  show ?thesis
    using png_dimensions[of example_env example_chart _ _
        "Resized (Decoded (1920, 1080) [1920, 1080]) (960, 540) LANCZOS" "''chart.png''"] f o
    by (simp add: example_env_def)
qed

text \<open>
  C2, as stated, fails at the format \<open>None\<close>: it is neither \<open>'html'\<close> nor \<open>'png'\<close>, yet
  \<open>show(None)\<close> returns without raising and leaves the chart as it was, and
  \<open>save(filename, None)\<close> returns the chart.
\<close>

theorem format_None_counterexample:
  "PyNone \<noteq> PyStr ''html'' \<and> PyNone \<noteq> PyStr ''png'' \<and>
   show_chart example_env PyNone example_chart = (Inr (Value PyNone), example_chart) \<and>
   fst (save example_env ''chart.png'' PyNone example_chart) = Inr ThisChart"
  by (simp add: show_chart_def save_def bind_def set_toolbar_for_format_def)

text \<open>
  C2, amended. For every format other than \<open>'html'\<close>, \<open>'png'\<close> and \<open>None\<close>, \<open>show\<close> and
  \<open>save\<close> raise the \<open>ValueError\<close> for an invalid format and leave the chart unchanged.
  The format \<open>None\<close> is accepted: \<open>show(None)\<close> shows nothing and returns \<open>None\<close>, and
  \<open>save(filename, None)\<close> writes no file, prints the file name and returns the chart.
\<close>

theorem invalid_format:
  "(format \<noteq> PyStr ''html'' \<and> format \<noteq> PyStr ''png'' \<and> format \<noteq> PyNone \<longrightarrow>
      show_chart env format c =
        (Inl (ValueError (Plain ''Invalid format. Valid options are 'html' or 'png'.'')), c) \<and>
      save env filename format c =
        (Inl (ValueError (Plain ''Invalid format. Valid options are 'html' or 'png'.'')), c)) \<and>
   show_chart env PyNone c = (Inr (Value PyNone), c) \<and>
   save env filename PyNone c =
     (Inr ThisChart, c\<lparr>effects := effects c @ [Print (''Saved to '' @ filename)]\<rparr>)"
  by (simp add: show_chart_def save_def bind_def set_toolbar_for_format_def
      invalid_format_error_def)

theorem invalid_format_witness:
  "PyStr ''svg'' \<noteq> PyStr ''html'' \<and> PyStr ''svg'' \<noteq> PyStr ''png'' \<and> PyStr ''svg'' \<noteq> PyNone \<and>
   show_chart example_env (PyStr ''svg'') example_chart =
     (Inl (ValueError (Plain ''Invalid format. Valid options are 'html' or 'png'.'')), example_chart) \<and>
   save example_env ''chart.svg'' (PyStr ''svg'') example_chart =
     (Inl (ValueError (Plain ''Invalid format. Valid options are 'html' or 'png'.'')), example_chart)"
  using invalid_format[of "PyStr ''svg''" example_env example_chart "''chart.svg''"]
  by simp

text \<open>
  C7. For every string that is not a key of the logo file mapping, and more generally for
  every hashable value that is not one of its keys, \<open>set_logo\<close> raises the \<open>KeyError\<close>
  whose message lists the registered names, and the logo object, its stored image
  included, is left as it was.
\<close>

theorem unknown_logo_name:
  "(n \<notin> set (map fst (logo_file_mapping lg)) \<longrightarrow>
      set_logo env c (PyStr n) lg =
        (Inl (KeyError (WithOptions ''Must supply a valid logo name: {valid_options}''
                 (map fst (logo_file_mapping lg)))), lg)) \<and>
   (hashable v \<and> v \<notin> PyStr ` set (map fst (logo_file_mapping lg)) \<longrightarrow>
      set_logo env c v lg =
        (Inl (KeyError (WithOptions ''Must supply a valid logo name: {valid_options}''
                 (map fst (logo_file_mapping lg)))), lg))"
proof -
  have g: "set_logo env c v lg = (Inl (logo_name_error lg), lg)"
    if "hashable v" and "v \<notin> PyStr ` set (map fst (logo_file_mapping lg))" for v
  proof -
    have "(case v of PyStr n \<Rightarrow> map_of (logo_file_mapping lg) n | _ \<Rightarrow> None) = None"
      using that(2) by (cases v) (auto simp: map_of_eq_None_iff image_iff)
    then show ?thesis using that(1) by (simp add: set_logo_def)
  qed
  have "set_logo env c (PyStr n) lg = (Inl (logo_name_error lg), lg)"
    if "n \<notin> set (map fst (logo_file_mapping lg))"
    using that by (intro g) auto
  then show ?thesis using g by (simp add: logo_name_error_def)
qed

theorem unknown_logo_name_witness:
  "''acme'' \<notin> set (map fst (logo_file_mapping example_logo)) \<and>
   set_logo example_env example_chart (PyStr ''acme'') example_logo =
     (Inl (KeyError (WithOptions ''Must supply a valid logo name: {valid_options}'' [''spotify''])),
      example_logo) \<and>
   hashable PyNone \<and> PyNone \<notin> PyStr ` set (map fst (logo_file_mapping (Logo_init ''logos/''))) \<and>
   set_logo example_env example_chart PyNone (Logo_init ''logos/'') =
     (Inl (KeyError (WithOptions ''Must supply a valid logo name: {valid_options}'' [])),
      Logo_init ''logos/'')"
  using unknown_logo_name[of "''acme''" example_logo example_env example_chart]
    unknown_logo_name[of _ "Logo_init ''logos/''" example_env example_chart PyNone]
  by (simp add: example_logo_def Logo_init_def)

text \<open>
  C8, as stated, fails on a 960 by 540 image and a 54 by 54 logo: the logo is pasted with
  its upper left corner at \<open>(896, 10)\<close>, 10 pixels below the upper edge, while the
  bottom-right corner with a padding of 10 is the box at \<open>(896, 476)\<close>.
\<close>

theorem logo_corner_counterexample:
  "add_logo_to_image example_env example_logo example_image =
     Inr (Pasted example_image (Resized (Decoded (200, 200) [200, 200]) (54, 54) LANCZOS)
            (896, 10) (Resized (Decoded (200, 200) [200, 200]) (54, 54) LANCZOS)) \<and>
   bottom_right_corner example_image (Resized (Decoded (200, 200) [200, 200]) (54, 54) LANCZOS) 10 =
     (896, 476) \<and>
   (896 :: int, 10 :: int) \<noteq> (896, 476)"
  by (simp add: add_logo_to_image_def example_env_def example_logo_def example_image_def
      bottom_right_corner_def)

text \<open>
  C8, amended. When no logo is set, \<open>_add_logo_to_image\<close> returns the image unchanged.
  When a logo is set and both images have a bounding box, it pastes the logo, with the
  logo itself as the transparency mask, into the top-right corner of the image: the
  logo's left edge lies the right edge of the logo's bounding box and a padding of 10
  pixels left of the right edge of the image's bounding box, and its upper edge 10
  pixels below the image's upper edge.
\<close>

theorem logo_pasted_top_right:
  "(logo_image lg = None \<longrightarrow> add_logo_to_image env lg img = Inr img) \<and>
   (logo_image lg = Some logo_img \<and> getbbox env img = Some (x0, y0, x1, y1) \<and>
    getbbox env logo_img = Some (a0, b0, a1, b1) \<longrightarrow>
      add_logo_to_image env lg img = Inr (Pasted img logo_img (x1 - a1 - 10, 10) logo_img))"
  by (simp add: add_logo_to_image_def)

theorem logo_pasted_top_right_witness:
  "logo_image (Logo_init ''logos/'') = None \<and>
   add_logo_to_image example_env (Logo_init ''logos/'') example_image = Inr example_image \<and>
   logo_image example_logo = Some (Resized (Decoded (200, 200) [200, 200]) (54, 54) LANCZOS) \<and>
   getbbox example_env example_image = Some (0, 0, 960, 540) \<and>
   getbbox example_env (Resized (Decoded (200, 200) [200, 200]) (54, 54) LANCZOS) =
     Some (0, 0, 54, 54) \<and>
   add_logo_to_image example_env example_logo example_image =
     Inr (Pasted example_image (Resized (Decoded (200, 200) [200, 200]) (54, 54) LANCZOS)
            (960 - 54 - 10, 10) (Resized (Decoded (200, 200) [200, 200]) (54, 54) LANCZOS))"
proof -
  have a: "logo_image (Logo_init ''logos/'') = None" by (simp add: Logo_init_def)
  have b: "logo_image example_logo = Some (Resized (Decoded (200, 200) [200, 200]) (54, 54) LANCZOS)"
    by (simp add: example_logo_def)
  have c: "getbbox example_env example_image = Some (0, 0, 960, 540)"
    by (simp add: example_env_def example_image_def)
  have d: "getbbox example_env (Resized (Decoded (200, 200) [200, 200]) (54, 54) LANCZOS) =
     Some (0, 0, 54, 54)"
    by (simp add: example_env_def)
  show ?thesis
    using logo_pasted_top_right[of "Logo_init ''logos/''" example_env example_image]
      logo_pasted_top_right[of example_logo example_env example_image
        "Resized (Decoded (200, 200) [200, 200]) (54, 54) LANCZOS" 0 0 960 540 0 0 54 54] a b c d
    by simp
qed

text \<open>
  C6. On a chart whose figure has a legend, \<open>set_legend_location(None)\<close> returns the
  chart, leaves the figure and its list of legends as they were and makes every legend
  invisible. \<open>set_legend_location('outside_bottom')\<close> and
  \<open>set_legend_location('outside_right')\<close> return the chart and add the first legend of
  the figure, the same object, to the renderers and to the slot \<open>below\<close> and \<open>right\<close>
  respectively, changing nothing else of the figure; the legend is still among the
  figure's legends and is attached to the plot. On a well-formed chart
  \<open>set_legend_location('outside_top')\<close> returns the chart, and the first legend is in the
  slot \<open>above\<close>, still among the figure's legends and attached to the plot.
\<close>

theorem legend_hidden_or_moved_outside:
  assumes "legend c \<noteq> []"
  shows
   "fst (set_legend_location env PyNone ori c) = Inr ThisChart \<and>
    figure (snd (set_legend_location env PyNone ori c)) = figure c \<and>
    legend (snd (set_legend_location env PyNone ori c)) = legend c \<and>
    (\<forall>r \<in> set (legend c).
       \<not> visible_attr (heap (snd (set_legend_location env PyNone ori c)) r)) \<and>
    fst (set_legend_location env (PyStr ''outside_bottom'') ori c) = Inr ThisChart \<and>
    figure (snd (set_legend_location env (PyStr ''outside_bottom'') ori c)) =
      (figure c)\<lparr>renderers := renderers (figure c) @ [hd (legend c)],
                   below := below (figure c) @ [hd (legend c)]\<rparr> \<and>
    hd (legend c) \<in> set (legend (snd (set_legend_location env (PyStr ''outside_bottom'') ori c))) \<and>
    plot_attr (heap (snd (set_legend_location env (PyStr ''outside_bottom'') ori c))
      (hd (legend c))) \<and>
    fst (set_legend_location env (PyStr ''outside_right'') ori c) = Inr ThisChart \<and>
    figure (snd (set_legend_location env (PyStr ''outside_right'') ori c)) =
      (figure c)\<lparr>renderers := renderers (figure c) @ [hd (legend c)],
                   right := right (figure c) @ [hd (legend c)]\<rparr> \<and>
    hd (legend c) \<in> set (legend (snd (set_legend_location env (PyStr ''outside_right'') ori c))) \<and>
    plot_attr (heap (snd (set_legend_location env (PyStr ''outside_right'') ori c))
      (hd (legend c))) \<and>
    (chart_ok c \<longrightarrow>
       fst (set_legend_location env (PyStr ''outside_top'') ori c) = Inr ThisChart \<and>
       hd (legend c) \<in> set (above (figure (snd (set_legend_location env (PyStr ''outside_top'') ori c)))) \<and>
       hd (legend c) \<in> set (legend (snd (set_legend_location env (PyStr ''outside_top'') ori c))) \<and>
       plot_attr (heap (snd (set_legend_location env (PyStr ''outside_top'') ori c))
         (hd (legend c))))"
proof -
  let ?l = "hd (legend c)"
  have np: "\<not> plot_attr (heap (detached_legend env ori loc c) ?l)" for loc
    by (simp add: detached_legend_simps)
  note b = moved_legend[OF assms valid_places_simps(2) refl, of env ori "PyStr ''bottom_center''"]
  note r = moved_legend[OF assms valid_places_simps(3) refl, of env ori "PyStr ''top_left''"]
  have n: "fst (set_legend_location env PyNone ori c) = Inr ThisChart \<and>
    figure (snd (set_legend_location env PyNone ori c)) = figure c \<and>
    legend (snd (set_legend_location env PyNone ori c)) = legend c \<and>
    (\<forall>r \<in> set (legend c).
       \<not> visible_attr (heap (snd (set_legend_location env PyNone ori c)) r))"
    by (simp add: set_legend_location_None)
  have bo: "fst (set_legend_location env (PyStr ''outside_bottom'') ori c) = Inr ThisChart \<and>
    figure (snd (set_legend_location env (PyStr ''outside_bottom'') ori c)) =
      (figure c)\<lparr>renderers := renderers (figure c) @ [?l], below := below (figure c) @ [?l]\<rparr> \<and>
    ?l \<in> set (legend (snd (set_legend_location env (PyStr ''outside_bottom'') ori c))) \<and>
    plot_attr (heap (snd (set_legend_location env (PyStr ''outside_bottom'') ori c)) ?l)"
    unfolding set_legend_location_outside(1)[OF assms]
    using b(8,11) by (simp add: add_layout_figure(2)[OF np] detached_legend_simps)
  have ri: "fst (set_legend_location env (PyStr ''outside_right'') ori c) = Inr ThisChart \<and>
    figure (snd (set_legend_location env (PyStr ''outside_right'') ori c)) =
      (figure c)\<lparr>renderers := renderers (figure c) @ [?l], right := right (figure c) @ [?l]\<rparr> \<and>
    ?l \<in> set (legend (snd (set_legend_location env (PyStr ''outside_right'') ori c))) \<and>
    plot_attr (heap (snd (set_legend_location env (PyStr ''outside_right'') ori c)) ?l)"
    unfolding set_legend_location_outside(2)[OF assms]
    using r(8,11) by (simp add: add_layout_figure(3)[OF np] detached_legend_simps)
  have to: "chart_ok c \<longrightarrow>
       fst (set_legend_location env (PyStr ''outside_top'') ori c) = Inr ThisChart \<and>
       ?l \<in> set (above (figure (snd (set_legend_location env (PyStr ''outside_top'') ori c)))) \<and>
       ?l \<in> set (legend (snd (set_legend_location env (PyStr ''outside_top'') ori c))) \<and>
       plot_attr (heap (snd (set_legend_location env (PyStr ''outside_top'') ori c)) ?l)"
    using set_legend_location_top_ok[OF assms] by blast
  from n bo ri to show ?thesis by (intro conjI) blast+
qed

theorem legend_hidden_or_moved_outside_witness:
  "legend (plot_with_legend example_chart) \<noteq> [] \<and>
   chart_ok (plot_with_legend example_chart) \<and>
   fst (set_legend_location example_env PyNone (PyStr ''horizontal'')
          (plot_with_legend example_chart)) = Inr ThisChart \<and>
   \<not> visible_attr (heap (snd (set_legend_location example_env PyNone (PyStr ''horizontal'')
          (plot_with_legend example_chart))) 3) \<and>
   3 \<in> set (legend (snd (set_legend_location example_env PyNone (PyStr ''horizontal'')
          (plot_with_legend example_chart)))) \<and>
   3 \<in> set (below (figure (snd (set_legend_location example_env (PyStr ''outside_bottom'')
          (PyStr ''horizontal'') (plot_with_legend example_chart))))) \<and>
   3 \<in> set (legend (snd (set_legend_location example_env (PyStr ''outside_bottom'')
          (PyStr ''horizontal'') (plot_with_legend example_chart)))) \<and>
   3 \<in> set (right (figure (snd (set_legend_location example_env (PyStr ''outside_right'')
          (PyStr ''horizontal'') (plot_with_legend example_chart))))) \<and>
   3 \<in> set (legend (snd (set_legend_location example_env (PyStr ''outside_right'')
          (PyStr ''horizontal'') (plot_with_legend example_chart)))) \<and>
   fst (set_legend_location example_env (PyStr ''outside_top'') (PyStr ''horizontal'')
          (plot_with_legend example_chart)) = Inr ThisChart \<and>
   3 \<in> set (above (figure (snd (set_legend_location example_env (PyStr ''outside_top'')
          (PyStr ''horizontal'') (plot_with_legend example_chart))))) \<and>
   3 \<in> set (legend (snd (set_legend_location example_env (PyStr ''outside_top'')
          (PyStr ''horizontal'') (plot_with_legend example_chart))))"
proof -
  have a: "legend (plot_with_legend example_chart) \<noteq> []" by (simp add: example_legend)
  show ?thesis
    using legend_hidden_or_moved_outside[OF a, of example_env "PyStr ''horizontal''"]
      example_legend_ok
    by (simp add: example_legend)
qed




text \<open>
  C10. \<open>set_title\<close>, \<open>set_subtitle\<close> and \<open>set_source_label\<close> always return the chart
  they were called on. \<open>set_legend_location\<close> and \<open>save\<close> either raise or return the
  chart they were called on, never another value; \<open>set_legend_location\<close> returns it for
  every location other than \<open>'outside_top'\<close> and, on a well-formed chart, for
  \<open>'outside_top'\<close> too, and \<open>save\<close> returns it for the format \<open>'html'\<close>.
\<close>

theorem mutators_return_chart:
  "fst (set_title t c) = Inr ThisChart \<and>
   fst (set_subtitle s c) = Inr ThisChart \<and>
   fst (set_source_label src c) = Inr ThisChart \<and>
   (fst (set_legend_location env location ori c) = Inr ThisChart \<or>
    (\<exists>e. fst (set_legend_location env location ori c) = Inl e)) \<and>
   (location \<noteq> PyStr ''outside_top'' \<or> chart_ok c \<longrightarrow>
      fst (set_legend_location env location ori c) = Inr ThisChart) \<and>
   (fst (save env filename format c) = Inr ThisChart \<or>
    (\<exists>e. fst (save env filename format c) = Inl e)) \<and>
   fst (save env filename (PyStr ''html'') c) = Inr ThisChart"
proof -
  have "fst (set_title t c) = Inr ThisChart" "fst (set_subtitle s c) = Inr ThisChart"
    "fst (set_source_label src c) = Inr ThisChart"
    by (simp_all add: set_title_def set_subtitle_def set_source_label_def)
  moreover have "fst (save env filename (PyStr ''html'') c) = Inr ThisChart"
    by (simp add: save_def bind_def set_toolbar_for_format_def)
  ultimately show ?thesis
    using set_legend_location_ret[of env location ori c]
      set_legend_location_returns[of location c env ori] save_ret[of env filename format c]
    by blast
qed

theorem mutators_return_chart_witness:
  "chart_ok (plot_with_legend example_chart) \<and>
   fst (set_legend_location example_env (PyStr ''outside_top'') (PyStr ''vertical'')
          (plot_with_legend example_chart)) = Inr ThisChart \<and>
   PyStr ''bottom_left'' \<noteq> PyStr ''outside_top'' \<and>
   fst (set_legend_location example_env (PyStr ''bottom_left'') (PyStr ''vertical'')
          example_chart) = Inr ThisChart"
  using mutators_return_chart[of _ "plot_with_legend example_chart" _ _ example_env
      "PyStr ''outside_top''" "PyStr ''vertical''"]
    mutators_return_chart[of _ example_chart _ _ example_env
      "PyStr ''bottom_left''" "PyStr ''vertical''"]
    example_legend_ok
  by simp

end
